theory Spec2Isabelle
  imports Complex_Main "HOL-Library.Option_ord"
begin

section \<open>Values shared by the controller and the workers\<close>

text \<open>
  JavaScript values as far as the queue inspects them: task payloads, metadata and the
  objects a database client throws. An object is given by the properties it has of its
  own or from its class; a function is opaque.
\<close>

datatype jsval =
    JUndefined
  | JNull
  | JBool bool
  | JNum int
  | JStr string
  | JFunction
  | JObj "(string \<times> jsval) list"

text \<open>A \<open>Date\<close> is its number of milliseconds since the epoch.\<close>

type_synonym date = int

text \<open>Decimal rendering of a number in a template literal.\<close>

definition digit :: "nat \<Rightarrow> char" where
  "digit d = ''0123456789'' ! d"

fun decimal :: "nat \<Rightarrow> string" where
  "decimal n = (if n < 10 then [digit n] else decimal (n div 10) @ [digit (n mod 10)])"

declare decimal.simps [simp del]

definition show_int :: "int \<Rightarrow> string" where
  "show_int i = (if i < 0 then CHR ''-'' # decimal (nat (- i)) else decimal (nat i))"

text \<open>\<open>String.prototype.includes\<close>: the pattern occurs as a contiguous substring.\<close>

fun starts_with :: "string \<Rightarrow> string \<Rightarrow> bool" where
  "starts_with s [] = True"
| "starts_with [] (p # ps) = False"
| "starts_with (c # cs) (p # ps) = (c = p \<and> starts_with cs ps)"

fun includes_str :: "string \<Rightarrow> string \<Rightarrow> bool" where
  "includes_str [] p = (p = [])"
| "includes_str (c # cs) p = (starts_with (c # cs) p \<or> includes_str cs p)"

section \<open>Task (src/src/task.ts)\<close>

datatype status = Pending | Running | Completed | Failed | Cancelled

text \<open>
  The fields of \<open>QueueTask\<close>. An \<open>Error\<close> is represented by its message. The promise and
  its resolvers are not fields of the model; the worker runtime below records what the
  rejection of the promise does to the process. \<open>retryCount\<close> is a count: the
  constructor sets it to 0 and the code only ever adds 1 to it. \<open>maxRetries\<close> is
  whatever finite number the options or the environment carry, whole or not, so it is a
  rational.
\<close>

record task =
  uid :: string
  name :: string
  type :: string
  description :: "string option"
  status :: status
  progress :: int
  startedAt :: "date option"
  failedAt :: "date option"
  completedAt :: "date option"
  priority :: int
  retryCount :: int
  maxRetries :: rat
  delay :: int
  timeout :: int
  runAt :: "date option"
  data :: "jsval option"
  userId :: "int option"
  metadata :: "(string \<times> jsval) list"
  error :: "string option"
  errorHistory :: "string list"

text \<open>
  \<open>TaskOptions\<close> (src/types/task.d.ts): the plain object a task is built from. An
  optional property that is absent is \<open>None\<close>.
\<close>

record taskOptions =
  opt_uid :: "string option"
  opt_name :: string
  opt_type :: string
  opt_description :: "string option"
  opt_priority :: "int option"
  opt_maxRetries :: "rat option"
  opt_delay :: "int option"
  opt_timeout :: "int option"
  opt_data :: "jsval option"
  opt_userId :: "int option"
  opt_metadata :: "(string \<times> jsval) list option"
  opt_runAt :: "date option"

text \<open>
  The process environment read by the constructor: \<open>Number(process.env.X)\<close> is \<open>None\<close>
  when the variable is unset or not a number (\<open>NaN\<close>).
\<close>

record env =
  MAX_TASK_RETRIES :: "rat option"
  TASK_TIMEOUT_MS :: "int option"

text \<open>\<open>a || b\<close> on an optional number: \<open>undefined\<close>, \<open>NaN\<close> and \<open>0\<close> are falsy.\<close>

definition num_or :: "'a option \<Rightarrow> 'a \<Rightarrow> ('a :: zero)" where
  "num_or a b = (case a of None \<Rightarrow> b | Some n \<Rightarrow> if n = 0 then b else n)"

text \<open>\<open>#generateId\<close>: \<open>task_<Date.now()>_<random suffix>\<close>.\<close>

definition generateId :: "date \<Rightarrow> string \<Rightarrow> string" where
  "generateId now rnd = ''task_'' @ show_int now @ ''_'' @ rnd"

text \<open>The constructor; \<open>now\<close> and \<open>rnd\<close> feed \<open>#generateId\<close>.\<close>

definition QueueTask :: "env \<Rightarrow> date \<Rightarrow> string \<Rightarrow> taskOptions \<Rightarrow> task" where
  "QueueTask e now rnd options =
     \<lparr> uid = (case opt_uid options of
                 None \<Rightarrow> generateId now rnd
               | Some u \<Rightarrow> if u = [] then generateId now rnd else u),
       name = opt_name options,
       type = opt_type options,
       description = opt_description options,
       status = Pending,
       progress = 0,
       startedAt = None,
       failedAt = None,
       completedAt = None,
       priority = num_or (opt_priority options) 0,
       retryCount = 0,
       maxRetries = num_or (opt_maxRetries options) (num_or (MAX_TASK_RETRIES e) 3),
       delay = num_or (opt_delay options) 0,
       timeout = num_or (opt_timeout options) (num_or (TASK_TIMEOUT_MS e) 30000),
       runAt = (case opt_runAt options of None \<Rightarrow> None | Some d \<Rightarrow> Some d),
       data = opt_data options,
       userId = opt_userId options,
       metadata = (case opt_metadata options of None \<Rightarrow> [] | Some m \<Rightarrow> m),
       error = None,
       errorHistory = [] \<rparr>"

definition fromPlainObject :: "env \<Rightarrow> date \<Rightarrow> string \<Rightarrow> taskOptions \<Rightarrow> task" where
  "fromPlainObject e now rnd object = QueueTask e now rnd object"

subsection \<open>validate\<close>

text \<open>
  An entry of a validation schema: a function, with the text \<open>toString()\<close> gives for it,
  or a value that is not a function.
\<close>

datatype validator = Rule string "task \<Rightarrow> bool" | NotAFunction

text \<open>
  \<open>replace(/^[\t ]+/gm, "")\<close>: drop the tabs and spaces that start each line. With the
  \<open>m\<close> flag a line starts at the start of the text and after every line terminator:
  line feed and carriage return (the other two, U+2028 and U+2029, are not characters
  of the 8-bit \<open>char\<close>).
\<close>

definition is_indent :: "char \<Rightarrow> bool" where
  "is_indent c = (c = CHR 0x09 \<or> c = CHR '' '')"

definition is_newline :: "char \<Rightarrow> bool" where
  "is_newline c = (c = CHR 0x0A)"

definition is_line_terminator :: "char \<Rightarrow> bool" where
  "is_line_terminator c = (c = CHR 0x0A \<or> c = CHR 0x0D)"

fun strip_indent :: "bool \<Rightarrow> string \<Rightarrow> string" where
  "strip_indent at_start [] = []"
| "strip_indent at_start (c # cs) =
     (if at_start \<and> is_indent c then strip_indent True cs
      else c # strip_indent (is_line_terminator c) cs)"

text \<open>\<open>replace(/\n{2,}/g, "\n")\<close>: a run of newlines becomes one newline.\<close>

fun collapse_newlines :: "string \<Rightarrow> string" where
  "collapse_newlines (c # d # cs) =
     (if is_newline c \<and> is_newline d then collapse_newlines (d # cs)
      else c # collapse_newlines (d # cs))"
| "collapse_newlines cs = cs"

definition validatorCode :: "string \<Rightarrow> string" where
  "validatorCode src = collapse_newlines (strip_indent True src)"

record validation =
  passed :: bool
  reason :: string

definition failure_reason :: "string \<Rightarrow> string" where
  "failure_reason src =
     ''ValidationRule '' @ [CHR 0x22] @ validatorCode src @ [CHR 0x22]
       @ '' did not resolve to true''"

text \<open>The body of the \<open>forEach\<close> callback, on the result object built so far.\<close>

fun validate_step :: "task \<Rightarrow> validation \<Rightarrow> validator \<Rightarrow> validation" where
  "validate_step t result NotAFunction = result"
| "validate_step t result (Rule src f) =
     (if \<not> f t then result\<lparr> reason := failure_reason src, passed := False \<rparr>
      else result)"

definition validate :: "task \<Rightarrow> validator list \<Rightarrow> validation" where
  "validate t validationSchema =
     foldl (validate_step t) \<lparr> passed = True, reason = ''Validation passed'' \<rparr> validationSchema"


subsection \<open>execute and the retry engine\<close>

text \<open>
  A \<open>TaskResult\<close> is the \<open>processed\<close> flag together with the executor's own payload.
\<close>

record taskResult =
  processed :: bool
  payload :: jsval

text \<open>
  What the executor's promise does in the race against the timeout: it fulfils with a
  result, rejects with an \<open>Error\<close> (given by its message), or is still pending when
  the timeout fires. The executor is given the task and is modelled as reading it only.
\<close>

datatype outcome = Returns taskResult | Throws string | Hangs

definition addError :: "string \<Rightarrow> task \<Rightarrow> task" where
  "addError e t = t\<lparr> error := Some e, errorHistory := errorHistory t @ [e] \<rparr>"

definition retry :: "task \<Rightarrow> bool \<times> task" where
  "retry t =
     (if of_int (retryCount t) \<ge> maxRetries t then (False, t)
      else (True, t\<lparr> retryCount := retryCount t + 1,
                      status := Pending,
                      progress := 0,
                      startedAt := None,
                      completedAt := None,
                      error := None \<rparr>))"

definition setFailed :: "date \<Rightarrow> task \<Rightarrow> task" where
  "setFailed now t = t\<lparr> status := Failed, failedAt := Some now, progress := 0 \<rparr>"

definition setCompleted :: "date \<Rightarrow> task \<Rightarrow> task" where
  "setCompleted now t = t\<lparr> status := Completed, completedAt := Some now, progress := 100 \<rparr>"

definition handleError :: "date \<Rightarrow> string \<Rightarrow> task \<Rightarrow> task" where
  "handleError now e t = setFailed now (addError e t)"

definition timeout_message :: "task \<Rightarrow> string" where
  "timeout_message t =
     ''Task '' @ uid t @ '' timed out after '' @ show_int (timeout t) @ ''ms''"

text \<open>\<open>Promise.race([executor(this), this.#createTimeout()])\<close>: the first to settle wins.\<close>

definition race :: "outcome \<Rightarrow> task \<Rightarrow> string + taskResult" where
  "race out t =
     (case out of
        Returns r \<Rightarrow> Inr r
      | Throws m \<Rightarrow> Inl m
      | Hangs \<Rightarrow> Inl (timeout_message t))"

definition shouldRetry :: "string \<Rightarrow> string list \<Rightarrow> bool" where
  "shouldRetry message retrySchema =
     list_ex (\<lambda>pattern. includes_str message pattern) (''Network timeout'' # retrySchema)"

text \<open>The three assignments that open an attempt.\<close>

definition begin_attempt :: "date \<Rightarrow> task \<Rightarrow> task" where
  "begin_attempt now t = t\<lparr> status := Running, startedAt := Some now, progress := 0 \<rparr>"

definition not_pending_message :: "task \<Rightarrow> string" where
  "not_pending_message t = ''Task '' @ uid t @ '' is not in pending status''"

text \<open>
  \<open>execute\<close> returns the executor's result or the error it throws, and the task as it
  leaves it. The recursion is the retry: it stops because each retry raises
  \<open>retryCount\<close> by one towards \<open>maxRetries\<close>.
\<close>

function execute ::
  "date \<Rightarrow> (task \<Rightarrow> outcome) \<Rightarrow> string list \<Rightarrow> task \<Rightarrow> (string + taskResult) \<times> task" where
  "execute now executor retrySchema t =
     (if status t \<noteq> Pending then (Inl (not_pending_message t), t)
      else
        let t1 = begin_attempt now t in
        (case race (executor t1) t1 of
           Inr result \<Rightarrow>
             if \<not> processed result then (Inr result, setFailed now t1)
             else (Inr result, setCompleted now t1)
         | Inl err \<Rightarrow>
             if shouldRetry err retrySchema \<and> fst (retry t1)
             then execute now executor retrySchema (snd (retry t1))
             else (Inl err, handleError now err t1)))"
  by pat_completeness auto
termination
proof (relation "measure (\<lambda>(now, executor, retrySchema, t).
                           nat \<lceil>maxRetries t - of_int (retryCount t)\<rceil>)")
  show "wf (measure (\<lambda>(now, executor, retrySchema, t).
                           nat \<lceil>maxRetries t - of_int (retryCount t)\<rceil>))"
    by simp
next
  fix now :: date and executor :: "task \<Rightarrow> outcome" and retrySchema :: "string list"
    and t x :: task and a :: string
  assume "x = begin_attempt now t" and "shouldRetry a retrySchema \<and> fst (retry x)"
  then have lt: "of_int (retryCount t) < maxRetries t"
    and new: "maxRetries (snd (retry x)) = maxRetries t"
             "retryCount (snd (retry x)) = retryCount t + 1"
    by (auto simp: retry_def begin_attempt_def split: if_splits)
  have "\<lceil>maxRetries t - of_int (retryCount t) - 1\<rceil> = \<lceil>maxRetries t - of_int (retryCount t)\<rceil> - 1"
    by (rule ceiling_diff_one)
  moreover have "0 < \<lceil>maxRetries t - of_int (retryCount t)\<rceil>"
    using lt by (simp add: ceiling_less_iff [where z = 1, simplified] less_ceiling_iff)
  ultimately
  show "((now, executor, retrySchema, snd (retry x)), now, executor, retrySchema, t)
          \<in> measure (\<lambda>(now, executor, retrySchema, t).
                           nat \<lceil>maxRetries t - of_int (retryCount t)\<rceil>)"
    using new by (simp add: algebra_simps)
qed

declare execute.simps [simp del]


section \<open>Workers and the worker manager (src/src/worker.ts, src/src/worker-manager.ts)\<close>

datatype jserror = Error string | TypeError string

record workerInfo =
  workerId :: "string option"
  processId :: int
  taskLoad :: int
  maxLoad :: int
  uptime :: int

text \<open>
  The parent-side handle. \<open>maxConcurrentTasks\<close> is the field's initial value 10 unless
  the application assigns it; \<open>cachedInfo\<close> is \<open>null\<close> until the first poll answers.
\<close>

record worker =
  wid :: string
  maxConcurrentTasks :: int
  cachedInfo :: "workerInfo option"
  cacheInterval :: int

definition new_Worker :: "string \<Rightarrow> worker" where
  "new_Worker i = \<lparr> wid = i, maxConcurrentTasks = 10, cachedInfo = None, cacheInterval = 200 \<rparr>"

text \<open>
  The manager: its \<open>Map\<close> of workers in insertion order, and the two facts about the
  host that \<open>spawn\<close> reads (where the worker script is and whether it exists).
\<close>

record workerManager =
  workerMap :: "(string \<times> worker) list"
  maxWorkers :: int
  workerPrefix :: string
  modulePath :: string
  moduleExists :: bool

text \<open>\<open>Map.prototype.set\<close>: an existing key keeps its place, a new key goes last.\<close>

fun map_set :: "string \<Rightarrow> 'v \<Rightarrow> (string \<times> 'v) list \<Rightarrow> (string \<times> 'v) list" where
  "map_set k v [] = [(k, v)]"
| "map_set k v ((k', v') # m) = (if k' = k then (k, v) # m else (k', v') # map_set k v m)"

definition worker_generateId :: "workerManager \<Rightarrow> string" where
  "worker_generateId m = workerPrefix m @ decimal (length (workerMap m) + 1)"

definition spawn :: "string option \<Rightarrow> workerManager \<Rightarrow> jserror + (worker \<times> workerManager)" where
  "spawn workerId_arg m =
     (let i = (case workerId_arg of None \<Rightarrow> worker_generateId m | Some i \<Rightarrow> i);
          workerCount = int (length (workerMap m))
      in if workerCount \<ge> maxWorkers m
         then Inl (Error (''Maximum number of workers reached: '' @ show_int workerCount
                          @ ''/'' @ show_int (maxWorkers m)))
         else if \<not> moduleExists m
         then Inl (Error (''Worker file not found at '' @ modulePath m
                          @ ''. Build the package before running.''))
         else let w = new_Worker i
              in Inr (w, m\<lparr> workerMap := map_set i w (workerMap m) \<rparr>))"

text \<open>
  The workers that pass the availability test
  \<open>cachedInfo && cachedInfo.taskLoad < maxConcurrentTasks\<close>, in map order. Each is kept
  with the cached info the test has just read: that is the object the later
  \<open>cachedInfo!\<close> reads.
\<close>

definition availability :: "worker \<Rightarrow> (workerInfo \<times> worker) option" where
  "availability w =
     (case cachedInfo w of
        None \<Rightarrow> None
      | Some info \<Rightarrow> if taskLoad info < maxConcurrentTasks w then Some (info, w) else None)"

definition available :: "workerManager \<Rightarrow> (workerInfo \<times> worker) list" where
  "available m = List.map_filter availability (map snd (workerMap m))"

text \<open>
  The sort key of \<open>getAvailableWorkers\<close>: \<open>taskLoad / maxConcurrentTasks\<close>, for an
  available worker. There \<open>taskLoad < maxConcurrentTasks\<close>, so a divisor 0 comes with a
  negative dividend and the quotient is \<open>-Infinity\<close>: that is \<open>None\<close>, which is below
  every number, and two of them compare equal (the comparator's \<open>NaN\<close> counts as 0).
\<close>

definition load_ratio :: "workerInfo \<times> worker \<Rightarrow> rat option" where
  "load_ratio p =
     (if maxConcurrentTasks (snd p) = 0 then None
      else Some (of_int (taskLoad (fst p)) / of_int (maxConcurrentTasks (snd p))))"

text \<open>\<open>Array.prototype.sort\<close> is stable, as insertion by key is.\<close>

definition getAvailableWorkers :: "workerManager \<Rightarrow> (workerInfo \<times> worker) list" where
  "getAvailableWorkers m = sort_key load_ratio (available m)"

text \<open>\<open>Array.prototype.reduce\<close> without an initial value throws on an empty array.\<close>

fun reduce_no_init :: "('a \<Rightarrow> 'a \<Rightarrow> 'a) \<Rightarrow> 'a list \<Rightarrow> jserror + 'a" where
  "reduce_no_init f [] = Inl (TypeError ''Reduce of empty array with no initial value'')"
| "reduce_no_init f (x # xs) = Inr (foldl f x xs)"

definition less_busy ::
  "workerInfo \<times> worker \<Rightarrow> workerInfo \<times> worker \<Rightarrow> workerInfo \<times> worker" where
  "less_busy prev current = (if taskLoad (fst prev) \<le> taskLoad (fst current) then prev else current)"

text \<open>
  \<open>getAvailable\<close> returns the worker it chose (\<open>None\<close> would be \<open>undefined\<close>) and the
  manager, which a spawn has changed.
\<close>

definition getAvailable :: "workerManager \<Rightarrow> jserror + (worker option \<times> workerManager)" where
  "getAvailable m =
     (let workerCount = int (length (workerMap m))
      in if workerCount = 0
         then (case spawn None m of Inl e \<Rightarrow> Inl e | Inr (w, m') \<Rightarrow> Inr (Some w, m'))
         else
           let availableWorker = available m
           in if length availableWorker = 0 \<and> maxWorkers m > workerCount
              then (case spawn None m of Inl e \<Rightarrow> Inl e | Inr (w, m') \<Rightarrow> Inr (Some w, m'))
              else (case reduce_no_init less_busy availableWorker of
                      Inl e \<Rightarrow> Inl e
                    | Inr leastBusy \<Rightarrow> Inr (Some (snd leastBusy), m)))"


section \<open>The queue and its dispatch strategies\<close>

text \<open>
  The executor as the controller uses it: the two schemas and \<open>exec\<close>. The hooks
  \<open>onComplete\<close>, \<open>onFailure\<close> and \<open>saveResult\<close> keep the empty bodies of the base
  class.
\<close>

record executor =
  validationSchema :: "validator list"
  retrySchema :: "string list"
  exec :: "task \<Rightarrow> outcome"

datatype message = TaskSingle task | TaskBatch "task list"

text \<open>
  Tasks are objects: the stack and the list handed to a strategy hold references to the
  same objects, so the model keeps the objects in \<open>heap\<close> and lists of references.
  \<open>outbox\<close> records what \<open>worker.send\<close> passed to which worker's process, in order;
  a message carries the task as it was serialised at that moment. \<open>saveTaskCalls\<close>
  records the status messages handed to \<open>store.saveTask\<close>. Console output is not
  modelled.
\<close>

type_synonym ref = nat

record statusMessage =
  sm_task :: task
  sm_error :: string

record queue =
  heap :: "ref \<Rightarrow> task"
  taskStack :: "ref list"
  workers :: workerManager
  taskExecutors :: "(string \<times> executor) list"
  outbox :: "(string \<times> message) list"
  saveTaskCalls :: "statusMessage list"

subsection \<open>Queue.remove (src/types/index.d.ts, src/index.ts)\<close>

text \<open>\<open>findIndex\<close>: the first index whose element satisfies the predicate, or \<open>-1\<close>.\<close>

fun findIndex :: "('a \<Rightarrow> bool) \<Rightarrow> 'a list \<Rightarrow> int" where
  "findIndex P [] = -1"
| "findIndex P (x # xs) =
     (if P x then 0 else (let i = findIndex P xs in if i = -1 then -1 else i + 1))"

text \<open>\<open>splice(index, 1)\<close> for an index the caller has found in range.\<close>

definition splice1 :: "nat \<Rightarrow> 'a list \<Rightarrow> 'a list" where
  "splice1 i xs = take i xs @ drop (Suc i) xs"

text \<open>\<open>silent\<close> only switches the log line off.\<close>

definition remove :: "string \<Rightarrow> bool \<Rightarrow> queue \<Rightarrow> bool \<times> queue" where
  "remove taskId silent q =
     (let index = findIndex (\<lambda>r. uid (heap q r) = taskId) (taskStack q)
      in if index \<noteq> -1
         then (True, q\<lparr> taskStack := splice1 (nat index) (taskStack q) \<rparr>)
         else (False, q))"

definition getExecutor :: "queue \<Rightarrow> string \<Rightarrow> executor option" where
  "getExecutor q ty = map_of (taskExecutors q) ty"

text \<open>\<open>Worker.send\<close> drops a message without an \<open>event\<close>; the strategies' messages have one.\<close>

definition send :: "worker \<Rightarrow> message \<Rightarrow> queue \<Rightarrow> queue" where
  "send w msg q = q\<lparr> outbox := outbox q @ [(wid w, msg)] \<rparr>"

definition saveTask :: "statusMessage \<Rightarrow> queue \<Rightarrow> queue" where
  "saveTask sm q = q\<lparr> saveTaskCalls := saveTaskCalls q @ [sm] \<rparr>"

definition update_task :: "ref \<Rightarrow> (task \<Rightarrow> task) \<Rightarrow> queue \<Rightarrow> queue" where
  "update_task r f q = q\<lparr> heap := (heap q)(r := f (heap q r)) \<rparr>"

subsection \<open>Strategies (src/src/worker-manager.ts, \<open>single\<close> and \<open>batch\<close>)\<close>

record stats =
  tasksSent :: int
  noWorkerAvailable :: int
  noExecutorFound :: int
  validationFailed :: int

definition stats0 :: stats where
  "stats0 = \<lparr> tasksSent = 0, noWorkerAvailable = 0, noExecutorFound = 0, validationFailed = 0 \<rparr>"


definition validation_error :: "task \<Rightarrow> string \<Rightarrow> string" where
  "validation_error t why = ''Task '' @ name t @ '' validation failed: '' @ why"

text \<open>
  What both strategies do with a task whose validation did not pass: give it up when its
  retries are used up (no counter is touched), otherwise count it and record the error.
\<close>

definition validation_not_passed :: "date \<Rightarrow> ref \<Rightarrow> string \<Rightarrow> stats \<times> queue \<Rightarrow> stats \<times> queue" where
  "validation_not_passed now r why sq =
     (let s = fst sq; q = snd sq; t = heap q r
      in if of_int (retryCount t) \<ge> maxRetries t
         then
           let q1 = update_task r (\<lambda>t. t\<lparr> status := Failed, failedAt := Some now \<rparr>) q;
               q2 = snd (remove (uid (heap q1 r)) False q1);
               q3 = saveTask \<lparr> sm_task = heap q2 r, sm_error = ''Max retries reached'' \<rparr> q2
           in (s, q3)
         else
           let s1 = s\<lparr> validationFailed := validationFailed s + 1 \<rparr>;
               q1 = update_task r (\<lambda>t. t\<lparr> status := Failed, retryCount := retryCount t + 1 \<rparr>) q;
               q2 = update_task r (addError (validation_error (heap q1 r) why)) q1
           in (s1, q2))"




text \<open>The body of the inner \<open>for\<close> loop of \<open>batch\<close>: the checks on one task of the batch.\<close>

definition batch_check :: "date \<Rightarrow> stats \<times> queue \<Rightarrow> ref \<Rightarrow> stats \<times> queue" where
  "batch_check now sq r =
     (let s = fst sq; q = snd sq
      in case getExecutor q (type (heap q r)) of
           None \<Rightarrow>
             (s\<lparr> noExecutorFound := noExecutorFound s + 1 \<rparr>,
              snd (remove (uid (heap q r)) False q))
         | Some ex \<Rightarrow>
             let v = validate (heap q r) (validationSchema ex)
             in if \<not> passed v then validation_not_passed now r (reason v) (s, q)
                else (s, q))"

text \<open>
  The body of the outer loop, for one available worker. The state is the counters, the
  tasks still in the list (\<open>splice\<close> shortens it) and the queue.
\<close>

definition batch_step ::
  "date \<Rightarrow> stats \<times> ref list \<times> queue \<Rightarrow> workerInfo \<times> worker \<Rightarrow> stats \<times> ref list \<times> queue" where
  "batch_step now stq iw =
     (let s = fst stq; tasks = fst (snd stq); q = snd (snd stq);
          capacity = maxConcurrentTasks (snd iw) - taskLoad (fst iw)
      in if capacity \<le> 0 \<or> length tasks = 0
         then (s\<lparr> noWorkerAvailable := noWorkerAvailable s + 1 \<rparr>, tasks, q)
         else
           let batch = take (nat capacity) tasks;
               rest = drop (nat capacity) tasks
           in if length batch = 0 then (s, rest, q)
              else
                let sq1 = foldl (batch_check now) (s, q) batch;
                    q2 = send (snd iw) (TaskBatch (map (heap (snd sq1)) batch)) (snd sq1);
                    q3 = foldl (\<lambda>q r. snd (remove (uid (heap q r)) True q)) q2 batch
                in ((fst sq1)\<lparr> tasksSent := tasksSent (fst sq1) + int (length batch) \<rparr>, rest, q3))"

text \<open>\<open>batch\<close> returns the counters, what is left of the list it was given, and the queue.\<close>

definition batch :: "date \<Rightarrow> queue \<Rightarrow> ref list \<Rightarrow> stats \<times> ref list \<times> queue" where
  "batch now q tasks = foldl (batch_step now) (stats0, tasks, q) (getAvailableWorkers (workers q))"


section \<open>The worker runtime (the worker script, src/unnamed/part_001)\<close>

record taskInfo =
  ti_task :: "task option"
  ti_error :: string
  ti_result :: taskResult

text \<open>
  The module's state: the counter \<open>taskLoad\<close>, the constant \<open>MAX_TASK_LOAD\<close>
  (\<open>Number(process.env.MAX_CONCURRENT_TASKS)\<close>, \<open>None\<close> for \<open>NaN\<close>), the worker's id,
  its executor registry, and the \<open>taskInfo\<close> messages sent to the parent so far.
  \<open>exitCode\<close> is \<open>None\<close> while the process runs and the code it exits with once
  \<open>process.exit\<close> has been reached.
\<close>

record runtime =
  rt_taskLoad :: int
  MAX_TASK_LOAD :: "int option"
  WORKER_ID :: string
  rt_executors :: "(string \<times> executor) list"
  replies :: "taskInfo list"
  exitCode :: "int option"

text \<open>\<open>taskLoad >= MAX_TASK_LOAD\<close>; a comparison with \<open>NaN\<close> is false.\<close>

definition under_full_load :: "runtime \<Rightarrow> bool" where
  "under_full_load rt = (case MAX_TASK_LOAD rt of None \<Rightarrow> False | Some M \<Rightarrow> rt_taskLoad rt \<ge> M)"

definition worker_message :: "runtime \<Rightarrow> string \<Rightarrow> string" where
  "worker_message rt msg = ''['' @ WORKER_ID rt @ ''] '' @ msg"

text \<open>\<open>taskLoad++\<close> and \<open>taskLoad--\<close>.\<close>

definition increment :: "runtime \<Rightarrow> runtime" where
  "increment rt = rt\<lparr> rt_taskLoad := rt_taskLoad rt + 1 \<rparr>"

definition decrement :: "runtime \<Rightarrow> runtime" where
  "decrement rt = rt\<lparr> rt_taskLoad := rt_taskLoad rt - 1 \<rparr>"

text \<open>
  \<open>withWorkerCapacity\<close>, when nothing else runs while \<open>fn\<close> is awaited: \<open>fn\<close> is the
  asynchronous body; it settles with a value or an error and may leave the module state
  changed. The \<open>finally\<close> block runs on both.
\<close>

definition withWorkerCapacity ::
  "(runtime \<Rightarrow> (jserror + 'a) \<times> runtime) \<Rightarrow> runtime \<Rightarrow> (jserror + 'a) \<times> runtime" where
  "withWorkerCapacity fn rt =
     (if under_full_load rt
      then (Inl (Error (worker_message rt ''Currently under full load'')), rt)
      else
        let settled = fn (increment rt)
        in (fst settled, decrement (snd settled)))"

text \<open>\<open>sendTaskInfo\<close>: the error is sent as its message, \<open>String(null)\<close> when there is none.\<close>

definition sendTaskInfo :: "task option \<Rightarrow> string option \<Rightarrow> taskResult \<Rightarrow> runtime \<Rightarrow> runtime" where
  "sendTaskInfo t err result rt =
     rt\<lparr> replies := replies rt @
           [\<lparr> ti_task = t,
              ti_error = (case err of None \<Rightarrow> ''null'' | Some m \<Rightarrow> m),
              ti_result = result \<rparr>] \<rparr>"

definition unprocessed :: taskResult where
  "unprocessed = \<lparr> processed = False, payload = JUndefined \<rparr>"

definition no_executor_message :: "task \<Rightarrow> string" where
  "no_executor_message t = ''No executor for type: '' @ type t"

text \<open>
  What the body does once \<open>task.execute\<close> has settled. On success the result is
  reported. On failure the catch block marks the task, reports the error and does not
  return, so the report that follows the \<open>try\<close> is sent as well. A failed \<open>execute\<close>
  has rejected the task's promise in \<open>#handleError\<close>; nothing handles that promise, so
  once the pending continuations have run the \<open>unhandledRejection\<close> listener calls
  \<open>process.exit(1)\<close>.
\<close>

definition after_execute :: "(string + taskResult) \<times> task \<Rightarrow> runtime \<Rightarrow> runtime" where
  "after_execute settled rt =
     (case settled of
        (Inr result, t') \<Rightarrow> sendTaskInfo (Some t') None result rt
      | (Inl err, t') \<Rightarrow>
          let t'' = t'\<lparr> status := Failed, error := Some err \<rparr>;
              rt1 = sendTaskInfo (Some t'') (Some err) unprocessed rt;
              rt2 = sendTaskInfo (Some t'') None unprocessed rt1
          in rt2\<lparr> exitCode := Some 1 \<rparr>)"

text \<open>
  The function \<open>processTasks\<close> passes to \<open>withWorkerCapacity\<close> for one task, run from
  its start to its end: rebuild the task, find its executor, execute, report.
\<close>

definition run_task ::
  "env \<Rightarrow> date \<Rightarrow> string \<Rightarrow> taskOptions \<Rightarrow> runtime \<Rightarrow> (jserror + unit) \<times> runtime" where
  "run_task e now rnd d rt =
     (let t = fromPlainObject e now rnd d
      in case map_of (rt_executors rt) (type t) of
           Some ex \<Rightarrow> (Inr (), after_execute (execute now (exec ex) (retrySchema ex) t) rt)
         | None \<Rightarrow> (Inr (), sendTaskInfo (Some t) (Some (no_executor_message t)) unprocessed rt))"

definition error_message :: "jserror \<Rightarrow> string" where
  "error_message err = (case err of Error m \<Rightarrow> m | TypeError m \<Rightarrow> m)"

text \<open>
  The callback of \<open>taskData.forEach\<close> for one task, when nothing else runs between
  its start and its end:
  \<open>try { await withWorkerCapacity(...) } catch { sendTaskInfo(null, err, result) }
  finally { taskLoad-- }\<close>.
\<close>

definition process_one ::
  "(runtime \<Rightarrow> (jserror + unit) \<times> runtime) \<Rightarrow> runtime \<Rightarrow> runtime" where
  "process_one fn rt =
     (let settled = withWorkerCapacity fn rt;
          rt1 = (case fst settled of
                   Inl err \<Rightarrow> sendTaskInfo None (Some (error_message err)) unprocessed (snd settled)
                 | Inr u \<Rightarrow> snd settled)
      in decrement rt1)"

text \<open>
  Several callbacks. \<open>forEach\<close> starts every callback before any of them resumes: each
  runs up to its first pending \<open>await\<close>, that is through the capacity gate and, when
  admitted, through the increment and the body up to \<open>task.execute\<close>. A callback is
  then in one of three states: refused by the gate (it resumes in its \<open>catch\<close>), left
  without an executor (the body has reported it and is done), or waiting for
  \<open>execute\<close>.
\<close>

datatype callback = Refused jserror | Unserved | Executing task executor

definition start_callback ::
  "env \<Rightarrow> date \<Rightarrow> string \<Rightarrow> taskOptions \<Rightarrow> runtime \<Rightarrow> callback \<times> runtime" where
  "start_callback e now rnd d rt =
     (if under_full_load rt
      then (Refused (Error (worker_message rt ''Currently under full load'')), rt)
      else
        let rt1 = increment rt;
            t = fromPlainObject e now rnd d
        in case map_of (rt_executors rt1) (type t) of
             Some ex \<Rightarrow> (Executing t ex, rt1)
           | None \<Rightarrow> (Unserved, sendTaskInfo (Some t) (Some (no_executor_message t)) unprocessed rt1))"

fun start_all ::
  "env \<Rightarrow> date \<Rightarrow> string \<Rightarrow> taskOptions list \<Rightarrow> runtime \<Rightarrow> callback list \<times> runtime" where
  "start_all e now rnd [] rt = ([], rt)"
| "start_all e now rnd (d # ds) rt =
     (let started = start_callback e now rnd d rt;
          others = start_all e now rnd ds (snd started)
      in (fst started # fst others, snd others))"

text \<open>
  A callback resumes: a refused one reports the gate's error and runs its \<open>finally\<close>;
  an admitted one runs the \<open>finally\<close> of \<open>withWorkerCapacity\<close> and then its own, after
  the rest of the body if it was waiting for \<open>execute\<close>.
\<close>

definition resume_callback :: "date \<Rightarrow> callback \<Rightarrow> runtime \<Rightarrow> runtime" where
  "resume_callback now cb rt =
     (case cb of
        Refused err \<Rightarrow> decrement (sendTaskInfo None (Some (error_message err)) unprocessed rt)
      | Unserved \<Rightarrow> decrement (decrement rt)
      | Executing t ex \<Rightarrow>
          decrement (decrement (after_execute (execute now (exec ex) (retrySchema ex) t) rt)))"

definition admitted :: "callback \<Rightarrow> bool" where
  "admitted cb = (case cb of Refused err \<Rightarrow> False | _ \<Rightarrow> True)"

definition waits_for_execute :: "callback \<Rightarrow> bool" where
  "waits_for_execute cb = (case cb of Executing t ex \<Rightarrow> True | _ \<Rightarrow> False)"

text \<open>Nothing resumes in a process that has exited.\<close>

definition resume_all :: "date \<Rightarrow> callback list \<Rightarrow> runtime \<Rightarrow> runtime" where
  "resume_all now cbs rt =
     foldl (\<lambda>rt cb. if exitCode rt = None then resume_callback now cb rt else rt) rt cbs"

text \<open>
  \<open>processTasks\<close> on the array of a \<open>taskSingle\<close> or \<open>taskBatch\<close> message. After the
  callbacks have been started, those that wait for nothing resume first, then those
  that wait for \<open>execute\<close>; the model lets the executors settle in the order in which
  they were started.
\<close>

definition processTasks :: "env \<Rightarrow> date \<Rightarrow> string \<Rightarrow> taskOptions list \<Rightarrow> runtime \<Rightarrow> runtime" where
  "processTasks e now rnd taskData rt =
     (let started = start_all e now rnd taskData rt;
          cbs = fst started
      in resume_all now (filter (\<lambda>cb. \<not> waits_for_execute cb) cbs @ filter waits_for_execute cbs)
           (snd started))"

section \<open>The database adapter (src/src/database-adapter.ts, src/src/lib/util.ts)\<close>

definition typeof :: "jsval \<Rightarrow> string" where
  "typeof v =
     (case v of
        JUndefined \<Rightarrow> ''undefined''
      | JNull \<Rightarrow> ''object''
      | JBool b \<Rightarrow> ''boolean''
      | JNum n \<Rightarrow> ''number''
      | JStr s \<Rightarrow> ''string''
      | JFunction \<Rightarrow> ''function''
      | JObj props \<Rightarrow> ''object'')"

definition truthy :: "jsval \<Rightarrow> bool" where
  "truthy v =
     (case v of
        JUndefined \<Rightarrow> False
      | JNull \<Rightarrow> False
      | JBool b \<Rightarrow> b
      | JNum n \<Rightarrow> n \<noteq> 0
      | JStr s \<Rightarrow> s \<noteq> []
      | JFunction \<Rightarrow> True
      | JObj props \<Rightarrow> True)"

text \<open>
  \<open>===\<close> against a value written in the code: an object or a function is never
  identical to it.
\<close>

definition strict_equals :: "jsval \<Rightarrow> jsval \<Rightarrow> bool" where
  "strict_equals a b =
     (case a of JObj props \<Rightarrow> False | JFunction \<Rightarrow> False
      | _ \<Rightarrow> (case b of JObj props \<Rightarrow> False | JFunction \<Rightarrow> False | _ \<Rightarrow> a = b))"

text \<open>
  \<open>property in object\<close> and \<open>object[property]\<close> also see what the object inherits.
  Every object inherits the methods of \<open>Object.prototype\<close> and its \<open>__proto__\<close>
  accessor.
\<close>

definition Object_prototype :: "(string \<times> jsval) list" where
  "Object_prototype =
     map (\<lambda>k. (k, JFunction))
       [''constructor'', ''__defineGetter__'', ''__defineSetter__'', ''hasOwnProperty'',
        ''__lookupGetter__'', ''__lookupSetter__'', ''isPrototypeOf'', ''propertyIsEnumerable'',
        ''toString'', ''valueOf'', ''toLocaleString'']"

definition get_property :: "(string \<times> jsval) list \<Rightarrow> string \<Rightarrow> jsval option" where
  "get_property props k =
     (case map_of props k of
        Some v \<Rightarrow> Some v
      | None \<Rightarrow> if k = ''__proto__'' then Some (JObj Object_prototype)
                else map_of Object_prototype k)"

text \<open>The third argument of \<open>hasProperty\<close>; \<open>None\<close> when the call passes two arguments.\<close>

record expect =
  expect_type :: "string option"
  expect_value :: "jsval option"

definition hasProperty :: "jsval \<Rightarrow> string \<Rightarrow> expect option \<Rightarrow> bool" where
  "hasProperty object property ex =
     (case object of
        JObj props \<Rightarrow>
          (case get_property props property of
             None \<Rightarrow> False
           | Some v \<Rightarrow>
               (case ex of
                  None \<Rightarrow> True
                | Some x \<Rightarrow>
                    if (case expect_type x of None \<Rightarrow> False | Some ty \<Rightarrow> ty \<noteq> [] \<and> typeof v \<noteq> ty)
                    then False
                    else (case expect_value x of
                            None \<Rightarrow> True
                          | Some ev \<Rightarrow> if truthy ev then strict_equals v ev else True)))
      | _ \<Rightarrow> False)"

text \<open>
  The table delegate of the database client, \<open>db[table]\<close>: each call fulfils with a row
  (\<open>Inr\<close>) or rejects with the value the client throws (\<open>Inl\<close>).
\<close>

record upsertArgs =
  ua_where :: jsval
  ua_update :: jsval
  ua_create :: jsval

record updateArgs =
  up_where :: jsval
  up_data :: jsval

record tableDelegate =
  td_upsert :: "upsertArgs \<Rightarrow> jsval + jsval"
  td_update :: "updateArgs \<Rightarrow> jsval + jsval"

definition unique_conflict :: "jsval \<Rightarrow> bool" where
  "unique_conflict err =
     hasProperty err ''code'' (Some \<lparr> expect_type = Some ''string'', expect_value = Some (JStr ''P202'') \<rparr>)"

text \<open>
  \<open>PrismaAdapter.upsert\<close>. The promise it returns fulfils with \<open>r\<close> (\<open>Inr\<close>) or rejects
  (\<open>Inl\<close>); \<open>r\<close> starts out \<open>undefined\<close>.
\<close>

definition upsert :: "tableDelegate \<Rightarrow> upsertArgs \<Rightarrow> jsval + jsval" where
  "upsert tbl d =
     (case td_upsert tbl \<lparr> ua_where = ua_where d, ua_update = ua_update d, ua_create = ua_create d \<rparr> of
        Inr result \<Rightarrow> Inr result
      | Inl err \<Rightarrow>
          if unique_conflict err
          then (case td_update tbl \<lparr> up_where = ua_where d, up_data = ua_update d \<rparr> of
                  Inr result \<Rightarrow> Inr result
                | Inl updateErr \<Rightarrow> Inr JUndefined)
          else Inr JUndefined)"

text \<open>
  \<open>safeUpsert\<close> (src/src/lib/db.ts). \<open>onComplete\<close> is \<open>None\<close> when the caller passes
  none; called with a row it fulfils (\<open>None\<close>) or rejects with a value. The result is
  how the promise of \<open>safeUpsert\<close> settles and the rows \<open>onComplete\<close> was called
  with, in order; \<open>ins\<close> is the parameter \<open>insert\<close>.
\<close>

definition call_onComplete ::
  "(jsval \<Rightarrow> jsval option) option \<Rightarrow> jsval \<Rightarrow> jsval option \<times> jsval list" where
  "call_onComplete onComplete result =
     (case onComplete of None \<Rightarrow> (None, []) | Some f \<Rightarrow> (f result, [result]))"

definition safeUpsert ::
  "tableDelegate \<Rightarrow> jsval \<Rightarrow> jsval \<Rightarrow> (jsval \<Rightarrow> jsval option) option
     \<Rightarrow> (jsval + unit) \<times> jsval list" where
  "safeUpsert dbTable wh ins onComplete =
     (let tried =
            (case td_upsert dbTable \<lparr> ua_where = wh, ua_update = ins, ua_create = ins \<rparr> of
               Inl err \<Rightarrow> (Some err, [])
             | Inr result \<Rightarrow> call_onComplete onComplete result)
      in case fst tried of
           None \<Rightarrow> (Inr (), snd tried)
         | Some err \<Rightarrow>
             if unique_conflict err
             then (case td_update dbTable \<lparr> up_where = wh, up_data = ins \<rparr> of
                     Inl updateErr \<Rightarrow> (Inr (), snd tried)
                   | Inr result \<Rightarrow> (Inr (), snd tried @ snd (call_onComplete onComplete result)))
             else (Inr (), snd tried))"


section \<open>Sample values\<close>

text \<open>Concrete tasks, executors, workers and tables on which the theorems are instantiated.\<close>

definition no_env :: env where
  "no_env = \<lparr> MAX_TASK_RETRIES = None, TASK_TIMEOUT_MS = None \<rparr>"

text \<open>The plain object \<open>{uid, name, type}\<close>.\<close>

definition plain :: "string \<Rightarrow> string \<Rightarrow> taskOptions" where
  "plain u ty =
     \<lparr> opt_uid = Some u, opt_name = u, opt_type = ty, opt_description = None,
       opt_priority = None, opt_maxRetries = None, opt_delay = None, opt_timeout = None,
       opt_data = None, opt_userId = None, opt_metadata = None, opt_runAt = None \<rparr>"

definition task_of :: "string \<Rightarrow> string \<Rightarrow> task" where
  "task_of u ty = QueueTask no_env 0 [] (plain u ty)"

text \<open>A full snapshot: every property the constructor reads is present.\<close>

definition snapshot1 :: taskOptions where
  "snapshot1 =
     \<lparr> opt_uid = Some ''t-1'', opt_name = ''mail'', opt_type = ''noop'',
       opt_description = Some ''send'', opt_priority = Some 0, opt_maxRetries = Some 2,
       opt_delay = Some 0, opt_timeout = Some 50, opt_data = Some (JObj [(''to'', JStr ''x'')]),
       opt_userId = None, opt_metadata = Some [(''k'', JNum 1)], opt_runAt = Some 1000 \<rparr>"

definition never :: "task \<Rightarrow> bool" where
  "never t = False"

definition always :: "task \<Rightarrow> bool" where
  "always t = True"

definition done_result :: taskResult where
  "done_result = \<lparr> processed = True, payload = JObj [(''ok'', JNum 1)] \<rparr>"


definition exec_done :: "task \<Rightarrow> outcome" where
  "exec_done t = Returns done_result"



text \<open>Fails with a retryable error on every attempt.\<close>

definition exec_down :: "task \<Rightarrow> outcome" where
  "exec_down t = Throws ''Network timeout''"


definition noop_executor :: executor where
  "noop_executor = \<lparr> validationSchema = [], retrySchema = [], exec = exec_done \<rparr>"

definition strict_executor :: executor where
  "strict_executor =
     \<lparr> validationSchema = [Rule ''t => false'' never], retrySchema = [], exec = exec_done \<rparr>"

definition idle_info :: "int \<Rightarrow> workerInfo" where
  "idle_info load = \<lparr> workerId = Some ''w1'', processId = 1, taskLoad = load, maxLoad = 3, uptime = 1 \<rparr>"

definition polled_worker :: "string \<Rightarrow> int \<Rightarrow> worker" where
  "polled_worker i load = (new_Worker i)\<lparr> cachedInfo := Some (idle_info load) \<rparr>"

text \<open>A manager with the single worker \<open>w1\<close>, whose cached load is \<open>load\<close>.\<close>

definition one_worker :: "int \<Rightarrow> int \<Rightarrow> workerManager" where
  "one_worker load cap =
     \<lparr> workerMap = [(''w1'', polled_worker ''w1'' load)], maxWorkers = cap,
       workerPrefix = ''Anqueue-worker-'', modulePath = ''worker-script.js'', moduleExists = True \<rparr>"

text \<open>A manager whose single worker \<open>w1\<close> has just been spawned and not been polled yet.\<close>

definition unpolled_worker :: "int \<Rightarrow> workerManager" where
  "unpolled_worker cap = (one_worker 0 cap)\<lparr> workerMap := [(''w1'', new_Worker ''w1'')] \<rparr>"

text \<open>Tasks \<open>a\<close> (reference 0) and \<open>b\<close> (every other reference), all of type \<open>ty\<close>.\<close>

definition two_tasks :: "string \<Rightarrow> ref \<Rightarrow> task" where
  "two_tasks ty r = task_of (if r = 0 then ''a'' else ''b'') ty"

definition sample_queue :: "string \<Rightarrow> int \<Rightarrow> queue" where
  "sample_queue ty load =
     \<lparr> heap = two_tasks ty, taskStack = [0, 1, 2], workers = one_worker load 1,
       taskExecutors = [(''noop'', noop_executor), (''strict'', strict_executor)],
       outbox = [], saveTaskCalls = [] \<rparr>"



definition sample_runtime :: runtime where
  "sample_runtime =
     \<lparr> rt_taskLoad = 0, MAX_TASK_LOAD = Some 3, WORKER_ID = ''w1'',
       rt_executors = [(''noop'', noop_executor)], replies = [], exitCode = None \<rparr>"

text \<open>The same worker when the executor registered for \<open>noop\<close> fails on every attempt.\<close>

definition down_runtime :: runtime where
  "down_runtime = sample_runtime\<lparr> rt_executors := [(''noop'', noop_executor\<lparr> exec := exec_down \<rparr>)] \<rparr>"

definition reject_with :: "jsval \<Rightarrow> 'a \<Rightarrow> jsval + jsval" where
  "reject_with err args = Inl err"

definition fulfil_with :: "jsval \<Rightarrow> 'a \<Rightarrow> jsval + jsval" where
  "fulfil_with row args = Inr row"

text \<open>An \<open>onComplete\<close> callback that fulfils.\<close>

definition quiet_onComplete :: "jsval \<Rightarrow> jsval option" where
  "quiet_onComplete row = None"

definition sample_args :: upsertArgs where
  "sample_args =
     \<lparr> ua_where = JObj [(''uid'', JStr ''a'')],
       ua_update = JObj [(''status'', JStr ''completed'')],
       ua_create = JObj [(''uid'', JStr ''a''), (''status'', JStr ''completed'')] \<rparr>"

text \<open>A table whose \<open>upsert\<close> rejects with an error carrying \<open>code\<close> and whose \<open>update\<close> works.\<close>

definition conflicting_table :: "string \<Rightarrow> tableDelegate" where
  "conflicting_table code =
     \<lparr> td_upsert = reject_with (JObj [(''code'', JStr code)]),
       td_update = fulfil_with (JObj [(''uid'', JStr ''a'')]) \<rparr>"

section \<open>Substrings\<close>




section \<open>execute\<close>

lemma execute_settled:
  assumes "status t = Pending" and "executor (begin_attempt now t) = Returns r"
  shows "execute now executor rs t =
           (Inr r, if processed r then setCompleted now (begin_attempt now t)
                   else setFailed now (begin_attempt now t))"
  using assms by (subst execute.simps) (simp add: race_def Let_def)




lemma task_of_fields:
  "status (task_of u ty) = Pending" "retryCount (task_of u ty) = 0"
  "maxRetries (task_of u ty) = 3" "type (task_of u ty) = ty"
  "u \<noteq> [] \<Longrightarrow> uid (task_of u ty) = u" "name (task_of u ty) = u"
  by (simp_all add: task_of_def QueueTask_def plain_def no_env_def num_or_def)










section \<open>validate\<close>

lemma validate_fold_passed:
  "passed (foldl (validate_step t) acc vs) \<longleftrightarrow>
     passed acc \<and> (\<forall>src f. Rule src f \<in> set vs \<longrightarrow> f t)"
proof (induction vs arbitrary: acc)
  case Nil
  then show ?case by simp
next
  case (Cons v vs)
  show ?case by (cases v) (auto simp: Cons.IH)
qed

lemma validate_fold_all_pass:
  "(\<forall>src f. Rule src f \<in> set vs \<longrightarrow> f t) \<Longrightarrow> foldl (validate_step t) acc vs = acc"
proof (induction vs arbitrary: acc)
  case Nil
  then show ?case by simp
next
  case (Cons v vs)
  then show ?case by (cases v) auto
qed

lemma validate_last_failure:
  assumes "vs = pre @ Rule src f # post" and "\<not> f t"
    and "\<forall>src' f'. Rule src' f' \<in> set post \<longrightarrow> f' t"
  shows "validate t vs = \<lparr> passed = False, reason = failure_reason src \<rparr>"
proof -
  have "foldl (validate_step t) acc (pre @ Rule src f # post)
          = \<lparr> passed = False, reason = failure_reason src \<rparr>" for acc
    using assms(2,3) by (simp add: validate_fold_all_pass)
  then show ?thesis using assms(1) by (simp add: validate_def)
qed

text \<open>
  Claim C8, as the code has it. \<open>validate\<close> returns \<open>passed = true\<close> exactly when every
  entry of the schema that is a function returns true on the task, and then the reason is
  \<open>"Validation passed"\<close>. When some function does not return true, the result is
  \<open>passed = false\<close> with the reason built from the source text of the last such
  function: the loop runs to the end and each failure overwrites the reason.
\<close>

theorem validate_names_last_failure:
  "(passed (validate t vs) \<longleftrightarrow> (\<forall>src f. Rule src f \<in> set vs \<longrightarrow> f t)) \<and>
   (passed (validate t vs) \<longrightarrow> reason (validate t vs) = ''Validation passed'') \<and>
   (vs = pre @ Rule src f # post \<longrightarrow> \<not> f t \<longrightarrow>
      (\<forall>src' f'. Rule src' f' \<in> set post \<longrightarrow> f' t) \<longrightarrow>
      validate t vs = \<lparr> passed = False, reason = failure_reason src \<rparr>)"
proof (intro conjI impI)
  show "passed (validate t vs) \<longleftrightarrow> (\<forall>src f. Rule src f \<in> set vs \<longrightarrow> f t)"
    by (simp add: validate_def validate_fold_passed)
next
  assume "passed (validate t vs)"
  then have "\<forall>src f. Rule src f \<in> set vs \<longrightarrow> f t"
    by (simp add: validate_def validate_fold_passed)
  then show "reason (validate t vs) = ''Validation passed''"
    by (simp add: validate_def validate_fold_all_pass)
next
  assume "vs = pre @ Rule src f # post" "\<not> f t"
    "\<forall>src' f'. Rule src' f' \<in> set post \<longrightarrow> f' t"
  then show "validate t vs = \<lparr> passed = False, reason = failure_reason src \<rparr>"
    by (rule validate_last_failure)
qed

text \<open>The theorem at a schema that passes and at one whose first two rules fail.\<close>

theorem validate_names_last_failure_witness:
  "passed (validate (task_of ''a'' ''noop'') [Rule ''ok'' always, NotAFunction]) \<and>
   reason (validate (task_of ''a'' ''noop'') [Rule ''ok'' always, NotAFunction]) = ''Validation passed'' \<and>
   \<not> never (task_of ''a'' ''noop'') \<and> always (task_of ''a'' ''noop'') \<and>
   validate (task_of ''a'' ''noop'') [Rule ''first'' never, Rule ''second'' never, Rule ''ok'' always]
     = \<lparr> passed = False, reason = failure_reason ''second'' \<rparr>"
  using validate_names_last_failure
          [where t = "task_of ''a'' ''noop''" and vs = "[Rule ''ok'' always, NotAFunction]"]
        validate_names_last_failure
          [where t = "task_of ''a'' ''noop''"
             and vs = "[Rule ''first'' never, Rule ''second'' never, Rule ''ok'' always]"
             and pre = "[Rule ''first'' never]" and src = "''second''" and f = never
             and post = "[Rule ''ok'' always]"]
  by (simp add: never_def always_def)

text \<open>
  With two failing rules the reason does not name the first one, as claim C8 has it.
\<close>

theorem validate_first_failure_counterexample:
  "reason (validate (task_of ''a'' ''noop'') [Rule ''first'' never, Rule ''second'' never])
     \<noteq> failure_reason ''first''"
  by (simp add: validate_def never_def failure_reason_def validatorCode_def
        is_indent_def is_newline_def is_line_terminator_def)

section \<open>Task reconstruction\<close>

lemma generateId_not_empty: "generateId now rnd \<noteq> []"
  by (simp add: generateId_def)

lemma num_or_not_zero: "b \<noteq> 0 \<Longrightarrow> num_or a b \<noteq> 0"
  by (simp add: num_or_def split: option.splits)

text \<open>
  Claim C9, as the code has it. A task rebuilt from a plain object has the object's
  \<open>type\<close>, \<open>name\<close>, \<open>description\<close>, \<open>data\<close> and \<open>runAt\<close>; its \<open>priority\<close> and
  \<open>metadata\<close> when the object carries them, and 0 and the empty object otherwise; its
  \<open>uid\<close> when that is a string that is not empty, and a generated id otherwise; its
  \<open>maxRetries\<close> and \<open>timeout\<close> when they are not zero, and otherwise the number in
  \<open>MAX_TASK_RETRIES\<close> or 3, and the number in \<open>TASK_TIMEOUT_MS\<close> or 30000. No task so
  built has an empty \<open>uid\<close> or a zero \<open>maxRetries\<close> or \<open>timeout\<close>. So a plain object
  that carries the ten fields of a task \<open>t\<close> so built is rebuilt, under any environment,
  into a task with the same ten fields.
\<close>

theorem fromPlainObject_keeps_fields:
  "type (fromPlainObject e now rnd ob) = opt_type ob \<and>
   name (fromPlainObject e now rnd ob) = opt_name ob \<and>
   description (fromPlainObject e now rnd ob) = opt_description ob \<and>
   data (fromPlainObject e now rnd ob) = opt_data ob \<and>
   runAt (fromPlainObject e now rnd ob) = opt_runAt ob \<and>
   (opt_priority ob = Some p \<longrightarrow> priority (fromPlainObject e now rnd ob) = p) \<and>
   (opt_priority ob = None \<longrightarrow> priority (fromPlainObject e now rnd ob) = 0) \<and>
   (opt_metadata ob = Some md \<longrightarrow> metadata (fromPlainObject e now rnd ob) = md) \<and>
   (opt_metadata ob = None \<longrightarrow> metadata (fromPlainObject e now rnd ob) = []) \<and>
   (opt_uid ob = Some u \<longrightarrow> u \<noteq> [] \<longrightarrow> uid (fromPlainObject e now rnd ob) = u) \<and>
   (opt_uid ob = None \<or> opt_uid ob = Some [] \<longrightarrow>
      uid (fromPlainObject e now rnd ob) = generateId now rnd) \<and>
   (opt_maxRetries ob = Some m \<longrightarrow> m \<noteq> 0 \<longrightarrow> maxRetries (fromPlainObject e now rnd ob) = m) \<and>
   (opt_maxRetries ob = None \<or> opt_maxRetries ob = Some 0 \<longrightarrow>
      maxRetries (fromPlainObject e now rnd ob) =
        (case MAX_TASK_RETRIES e of None \<Rightarrow> 3 | Some d \<Rightarrow> if d = 0 then 3 else d)) \<and>
   (opt_timeout ob = Some tm \<longrightarrow> tm \<noteq> 0 \<longrightarrow> timeout (fromPlainObject e now rnd ob) = tm) \<and>
   (opt_timeout ob = None \<or> opt_timeout ob = Some 0 \<longrightarrow>
      timeout (fromPlainObject e now rnd ob) =
        (case TASK_TIMEOUT_MS e of None \<Rightarrow> 30000 | Some d \<Rightarrow> if d = 0 then 30000 else d)) \<and>
   uid (fromPlainObject e now rnd ob) \<noteq> [] \<and>
   maxRetries (fromPlainObject e now rnd ob) \<noteq> 0 \<and>
   timeout (fromPlainObject e now rnd ob) \<noteq> 0 \<and>
   (t = fromPlainObject e now rnd ob \<longrightarrow>
    opt_uid snap = Some (uid t) \<longrightarrow> opt_type snap = type t \<longrightarrow> opt_name snap = name t \<longrightarrow>
    opt_description snap = description t \<longrightarrow> opt_data snap = data t \<longrightarrow>
    opt_metadata snap = Some (metadata t) \<longrightarrow> opt_priority snap = Some (priority t) \<longrightarrow>
    opt_maxRetries snap = Some (maxRetries t) \<longrightarrow> opt_timeout snap = Some (timeout t) \<longrightarrow>
    opt_runAt snap = runAt t \<longrightarrow>
      uid (fromPlainObject e' now' rnd' snap) = uid t \<and>
      type (fromPlainObject e' now' rnd' snap) = type t \<and>
      name (fromPlainObject e' now' rnd' snap) = name t \<and>
      description (fromPlainObject e' now' rnd' snap) = description t \<and>
      data (fromPlainObject e' now' rnd' snap) = data t \<and>
      metadata (fromPlainObject e' now' rnd' snap) = metadata t \<and>
      priority (fromPlainObject e' now' rnd' snap) = priority t \<and>
      maxRetries (fromPlainObject e' now' rnd' snap) = maxRetries t \<and>
      timeout (fromPlainObject e' now' rnd' snap) = timeout t \<and>
      runAt (fromPlainObject e' now' rnd' snap) = runAt t)"
proof -
  have kept: "type (fromPlainObject e now rnd ob) = opt_type ob"
    "name (fromPlainObject e now rnd ob) = opt_name ob"
    "description (fromPlainObject e now rnd ob) = opt_description ob"
    "data (fromPlainObject e now rnd ob) = opt_data ob"
    "runAt (fromPlainObject e now rnd ob) = opt_runAt ob"
    by (simp_all add: fromPlainObject_def QueueTask_def split: option.splits)
  have prio: "opt_priority ob = Some p \<longrightarrow> priority (fromPlainObject e now rnd ob) = p"
    "opt_priority ob = None \<longrightarrow> priority (fromPlainObject e now rnd ob) = 0"
    by (simp_all add: fromPlainObject_def QueueTask_def num_or_def)
  have meta: "opt_metadata ob = Some md \<longrightarrow> metadata (fromPlainObject e now rnd ob) = md"
    "opt_metadata ob = None \<longrightarrow> metadata (fromPlainObject e now rnd ob) = []"
    by (simp_all add: fromPlainObject_def QueueTask_def)
  have ident: "opt_uid ob = Some u \<longrightarrow> u \<noteq> [] \<longrightarrow> uid (fromPlainObject e now rnd ob) = u"
    "opt_uid ob = None \<or> opt_uid ob = Some [] \<longrightarrow>
      uid (fromPlainObject e now rnd ob) = generateId now rnd"
    by (auto simp: fromPlainObject_def QueueTask_def)
  have tries: "opt_maxRetries ob = Some m \<longrightarrow> m \<noteq> 0 \<longrightarrow> maxRetries (fromPlainObject e now rnd ob) = m"
    "opt_maxRetries ob = None \<or> opt_maxRetries ob = Some 0 \<longrightarrow>
      maxRetries (fromPlainObject e now rnd ob) =
        (case MAX_TASK_RETRIES e of None \<Rightarrow> 3 | Some d \<Rightarrow> if d = 0 then 3 else d)"
    by (auto simp: fromPlainObject_def QueueTask_def num_or_def)
  have time: "opt_timeout ob = Some tm \<longrightarrow> tm \<noteq> 0 \<longrightarrow> timeout (fromPlainObject e now rnd ob) = tm"
    "opt_timeout ob = None \<or> opt_timeout ob = Some 0 \<longrightarrow>
      timeout (fromPlainObject e now rnd ob) =
        (case TASK_TIMEOUT_MS e of None \<Rightarrow> 30000 | Some d \<Rightarrow> if d = 0 then 30000 else d)"
    by (auto simp: fromPlainObject_def QueueTask_def num_or_def)
  have never: "uid (fromPlainObject e now rnd ob) \<noteq> []"
    "maxRetries (fromPlainObject e now rnd ob) \<noteq> 0"
    "timeout (fromPlainObject e now rnd ob) \<noteq> 0"
    by (simp_all add: fromPlainObject_def QueueTask_def generateId_not_empty num_or_not_zero
          split: option.splits)
  have law: "(t = fromPlainObject e now rnd ob \<longrightarrow>
      opt_uid snap = Some (uid t) \<longrightarrow> opt_type snap = type t \<longrightarrow> opt_name snap = name t \<longrightarrow>
      opt_description snap = description t \<longrightarrow> opt_data snap = data t \<longrightarrow>
      opt_metadata snap = Some (metadata t) \<longrightarrow> opt_priority snap = Some (priority t) \<longrightarrow>
      opt_maxRetries snap = Some (maxRetries t) \<longrightarrow> opt_timeout snap = Some (timeout t) \<longrightarrow>
      opt_runAt snap = runAt t \<longrightarrow>
        uid (fromPlainObject e' now' rnd' snap) = uid t \<and>
        type (fromPlainObject e' now' rnd' snap) = type t \<and>
        name (fromPlainObject e' now' rnd' snap) = name t \<and>
        description (fromPlainObject e' now' rnd' snap) = description t \<and>
        data (fromPlainObject e' now' rnd' snap) = data t \<and>
        metadata (fromPlainObject e' now' rnd' snap) = metadata t \<and>
        priority (fromPlainObject e' now' rnd' snap) = priority t \<and>
        maxRetries (fromPlainObject e' now' rnd' snap) = maxRetries t \<and>
        timeout (fromPlainObject e' now' rnd' snap) = timeout t \<and>
        runAt (fromPlainObject e' now' rnd' snap) = runAt t)"
  proof (intro impI)
    assume t: "t = fromPlainObject e now rnd ob"
      and snap: "opt_uid snap = Some (uid t)" "opt_type snap = type t" "opt_name snap = name t"
        "opt_description snap = description t" "opt_data snap = data t"
        "opt_metadata snap = Some (metadata t)" "opt_priority snap = Some (priority t)"
        "opt_maxRetries snap = Some (maxRetries t)" "opt_timeout snap = Some (timeout t)"
        "opt_runAt snap = runAt t"
    have full: "uid t \<noteq> []" "maxRetries t \<noteq> 0" "timeout t \<noteq> 0"
      using never t by simp_all
    show "uid (fromPlainObject e' now' rnd' snap) = uid t \<and>
      type (fromPlainObject e' now' rnd' snap) = type t \<and>
      name (fromPlainObject e' now' rnd' snap) = name t \<and>
      description (fromPlainObject e' now' rnd' snap) = description t \<and>
      data (fromPlainObject e' now' rnd' snap) = data t \<and>
      metadata (fromPlainObject e' now' rnd' snap) = metadata t \<and>
      priority (fromPlainObject e' now' rnd' snap) = priority t \<and>
      maxRetries (fromPlainObject e' now' rnd' snap) = maxRetries t \<and>
      timeout (fromPlainObject e' now' rnd' snap) = timeout t \<and>
      runAt (fromPlainObject e' now' rnd' snap) = runAt t"
      using snap full
      by (simp add: fromPlainObject_def [of e' now' rnd' snap] QueueTask_def num_or_def
            split: option.splits)
  qed
  show ?thesis
    using kept prio meta ident tries time never law by (intro conjI) assumption+
qed

lemma decimal_7: "decimal 7 = ''7''"
  by (subst decimal.simps) (simp add: digit_def)

text \<open>
  The theorem at a snapshot with every field present, at the plain object
  \<open>{uid, name, type}\<close>, and at the snapshot without its \<open>uid\<close>.
\<close>

theorem fromPlainObject_keeps_fields_witness:
  "opt_uid snapshot1 = Some ''t-1'' \<and> opt_maxRetries snapshot1 = Some 2 \<and>
   opt_timeout snapshot1 = Some 50 \<and> opt_priority snapshot1 = Some 0 \<and>
   opt_metadata snapshot1 = Some [(''k'', JNum 1)] \<and>
   uid (fromPlainObject no_env 7 ''x'' snapshot1) = ''t-1'' \<and>
   priority (fromPlainObject no_env 7 ''x'' snapshot1) = 0 \<and>
   metadata (fromPlainObject no_env 7 ''x'' snapshot1) = [(''k'', JNum 1)] \<and>
   maxRetries (fromPlainObject no_env 7 ''x'' snapshot1) = 2 \<and>
   timeout (fromPlainObject no_env 7 ''x'' snapshot1) = 50 \<and>
   opt_priority (plain ''a'' ''noop'') = None \<and> opt_metadata (plain ''a'' ''noop'') = None \<and>
   opt_maxRetries (plain ''a'' ''noop'') = None \<and> opt_timeout (plain ''a'' ''noop'') = None \<and>
   priority (fromPlainObject no_env 7 ''x'' (plain ''a'' ''noop'')) = 0 \<and>
   metadata (fromPlainObject no_env 7 ''x'' (plain ''a'' ''noop'')) = [] \<and>
   maxRetries (fromPlainObject no_env 7 ''x'' (plain ''a'' ''noop'')) = 3 \<and>
   timeout (fromPlainObject no_env 7 ''x'' (plain ''a'' ''noop'')) = 30000 \<and>
   opt_uid (snapshot1\<lparr> opt_uid := None \<rparr>) = None \<and>
   uid (fromPlainObject no_env 7 ''x'' (snapshot1\<lparr> opt_uid := None \<rparr>)) = ''task_7_x'' \<and>
   opt_uid snapshot1 = Some (uid (fromPlainObject no_env 7 ''x'' snapshot1)) \<and>
   opt_type snapshot1 = type (fromPlainObject no_env 7 ''x'' snapshot1) \<and>
   opt_name snapshot1 = name (fromPlainObject no_env 7 ''x'' snapshot1) \<and>
   opt_description snapshot1 = description (fromPlainObject no_env 7 ''x'' snapshot1) \<and>
   opt_data snapshot1 = data (fromPlainObject no_env 7 ''x'' snapshot1) \<and>
   opt_metadata snapshot1 = Some (metadata (fromPlainObject no_env 7 ''x'' snapshot1)) \<and>
   opt_priority snapshot1 = Some (priority (fromPlainObject no_env 7 ''x'' snapshot1)) \<and>
   opt_maxRetries snapshot1 = Some (maxRetries (fromPlainObject no_env 7 ''x'' snapshot1)) \<and>
   opt_timeout snapshot1 = Some (timeout (fromPlainObject no_env 7 ''x'' snapshot1)) \<and>
   opt_runAt snapshot1 = runAt (fromPlainObject no_env 7 ''x'' snapshot1) \<and>
   uid (fromPlainObject no_env 9 ''y'' snapshot1) = uid (fromPlainObject no_env 7 ''x'' snapshot1) \<and>
   maxRetries (fromPlainObject no_env 9 ''y'' snapshot1) = maxRetries (fromPlainObject no_env 7 ''x'' snapshot1) \<and>
   timeout (fromPlainObject no_env 9 ''y'' snapshot1) = timeout (fromPlainObject no_env 7 ''x'' snapshot1) \<and>
   metadata (fromPlainObject no_env 9 ''y'' snapshot1) = metadata (fromPlainObject no_env 7 ''x'' snapshot1) \<and>
   priority (fromPlainObject no_env 9 ''y'' snapshot1) = priority (fromPlainObject no_env 7 ''x'' snapshot1)"
proof -
  have s1: "opt_uid snapshot1 = Some ''t-1''" "opt_maxRetries snapshot1 = Some 2"
    "opt_timeout snapshot1 = Some 50" "opt_priority snapshot1 = Some 0"
    "opt_metadata snapshot1 = Some [(''k'', JNum 1)]"
    by (simp_all add: snapshot1_def)
  have s2: "opt_priority (plain ''a'' ''noop'') = None" "opt_metadata (plain ''a'' ''noop'') = None"
    "opt_maxRetries (plain ''a'' ''noop'') = None" "opt_timeout (plain ''a'' ''noop'') = None"
    by (simp_all add: plain_def)
  have s3: "opt_uid (snapshot1\<lparr> opt_uid := None \<rparr>) = None"
    by simp
  note rule1 = fromPlainObject_keeps_fields
      [where ob = snapshot1 and u = "''t-1''" and m = 2 and tm = 50 and p = 0
         and md = "[(''k'', JNum 1)]" and e = no_env and now = 7 and rnd = "''x''"]
  note rule2 = fromPlainObject_keeps_fields
      [where ob = "plain ''a'' ''noop''" and e = no_env and now = 7 and rnd = "''x''"]
  note rule3 = fromPlainObject_keeps_fields
      [where ob = "snapshot1\<lparr> opt_uid := None \<rparr>" and e = no_env and now = 7 and rnd = "''x''"]
  have r1: "uid (fromPlainObject no_env 7 ''x'' snapshot1) = ''t-1''"
    "priority (fromPlainObject no_env 7 ''x'' snapshot1) = 0"
    "metadata (fromPlainObject no_env 7 ''x'' snapshot1) = [(''k'', JNum 1)]"
    "maxRetries (fromPlainObject no_env 7 ''x'' snapshot1) = 2"
    "timeout (fromPlainObject no_env 7 ''x'' snapshot1) = 50"
    using rule1 s1 by simp_all
  have r2: "priority (fromPlainObject no_env 7 ''x'' (plain ''a'' ''noop'')) = 0"
    "metadata (fromPlainObject no_env 7 ''x'' (plain ''a'' ''noop'')) = []"
    "maxRetries (fromPlainObject no_env 7 ''x'' (plain ''a'' ''noop'')) = 3"
    "timeout (fromPlainObject no_env 7 ''x'' (plain ''a'' ''noop'')) = 30000"
    using rule2 s2 by (simp_all add: no_env_def)
  have r3: "uid (fromPlainObject no_env 7 ''x'' (snapshot1\<lparr> opt_uid := None \<rparr>)) = ''task_7_x''"
    using rule3 s3 by (simp add: generateId_def show_int_def decimal_7)
  have h: "opt_uid snapshot1 = Some (uid (fromPlainObject no_env 7 ''x'' snapshot1))"
    "opt_type snapshot1 = type (fromPlainObject no_env 7 ''x'' snapshot1)"
    "opt_name snapshot1 = name (fromPlainObject no_env 7 ''x'' snapshot1)"
    "opt_description snapshot1 = description (fromPlainObject no_env 7 ''x'' snapshot1)"
    "opt_data snapshot1 = data (fromPlainObject no_env 7 ''x'' snapshot1)"
    "opt_metadata snapshot1 = Some (metadata (fromPlainObject no_env 7 ''x'' snapshot1))"
    "opt_priority snapshot1 = Some (priority (fromPlainObject no_env 7 ''x'' snapshot1))"
    "opt_maxRetries snapshot1 = Some (maxRetries (fromPlainObject no_env 7 ''x'' snapshot1))"
    "opt_timeout snapshot1 = Some (timeout (fromPlainObject no_env 7 ''x'' snapshot1))"
    "opt_runAt snapshot1 = runAt (fromPlainObject no_env 7 ''x'' snapshot1)"
    using rule1 s1 by simp_all
  note rule4 = fromPlainObject_keeps_fields
      [where ob = snapshot1 and e = no_env and now = 7 and rnd = "''x''"
         and t = "fromPlainObject no_env 7 ''x'' snapshot1" and snap = snapshot1
         and e' = no_env and now' = 9 and rnd' = "''y''"]
  have r4: "uid (fromPlainObject no_env 9 ''y'' snapshot1) = uid (fromPlainObject no_env 7 ''x'' snapshot1)"
    "maxRetries (fromPlainObject no_env 9 ''y'' snapshot1) = maxRetries (fromPlainObject no_env 7 ''x'' snapshot1)"
    "timeout (fromPlainObject no_env 9 ''y'' snapshot1) = timeout (fromPlainObject no_env 7 ''x'' snapshot1)"
    "metadata (fromPlainObject no_env 9 ''y'' snapshot1) = metadata (fromPlainObject no_env 7 ''x'' snapshot1)"
    "priority (fromPlainObject no_env 9 ''y'' snapshot1) = priority (fromPlainObject no_env 7 ''x'' snapshot1)"
    using rule4 h by blast+
  show ?thesis
    using s1 s2 s3 r1 r2 r3 h r4 by blast
qed

text \<open>
  The round trip of claim C9 does not hold for every snapshot: \<open>maxRetries = 0\<close> comes
  back as 3, \<open>timeout = 0\<close> as 30000 and the empty \<open>uid\<close> as a generated id.
\<close>

theorem fromPlainObject_falsy_counterexample:
  "opt_maxRetries (snapshot1\<lparr> opt_maxRetries := Some 0 \<rparr>) = Some 0 \<and>
   maxRetries (fromPlainObject no_env 7 ''x'' (snapshot1\<lparr> opt_maxRetries := Some 0 \<rparr>)) = 3 \<and>
   opt_timeout (snapshot1\<lparr> opt_timeout := Some 0 \<rparr>) = Some 0 \<and>
   timeout (fromPlainObject no_env 7 ''x'' (snapshot1\<lparr> opt_timeout := Some 0 \<rparr>)) = 30000 \<and>
   opt_uid (snapshot1\<lparr> opt_uid := Some [] \<rparr>) = Some [] \<and>
   uid (fromPlainObject no_env 7 ''x'' (snapshot1\<lparr> opt_uid := Some [] \<rparr>)) = ''task_7_x''"
  by (simp add: fromPlainObject_def QueueTask_def num_or_def snapshot1_def no_env_def
        generateId_def show_int_def decimal_7)

section \<open>Queue.remove\<close>

lemma findIndex_none: "(\<forall>x \<in> set xs. \<not> P x) \<Longrightarrow> findIndex P xs = -1"
  by (induction xs) (auto simp: Let_def)

lemma findIndex_first:
  "(\<forall>x \<in> set pre. \<not> P x) \<Longrightarrow> P r \<Longrightarrow> findIndex P (pre @ r # post) = int (length pre)"
  by (induction pre) (auto simp: Let_def)

lemma splice1_middle: "splice1 (length pre) (pre @ r # post) = pre @ post"
  by (simp add: splice1_def)

text \<open>
  Claim C10. \<open>remove\<close> with a uid that no task of the stack has returns false and leaves
  the queue as it is. With a uid that some task has, it returns true and the stack loses
  the first task with that uid and nothing else: the tasks before and after it stay, in
  their order.
\<close>

theorem remove_first_match:
  "((\<forall>r \<in> set (taskStack q). uid (heap q r) \<noteq> taskId) \<longrightarrow>
      remove taskId silent q = (False, q)) \<and>
   (taskStack q = pre @ r # post \<longrightarrow> uid (heap q r) = taskId \<longrightarrow>
      (\<forall>x \<in> set pre. uid (heap q x) \<noteq> taskId) \<longrightarrow>
      remove taskId silent q = (True, q\<lparr> taskStack := pre @ post \<rparr>))"
proof (intro conjI impI)
  assume "\<forall>r \<in> set (taskStack q). uid (heap q r) \<noteq> taskId"
  then have "findIndex (\<lambda>r. uid (heap q r) = taskId) (taskStack q) = -1"
    by (intro findIndex_none) simp
  then show "remove taskId silent q = (False, q)"
    by (simp add: remove_def)
next
  assume st: "taskStack q = pre @ r # post" and hit: "uid (heap q r) = taskId"
    and miss: "\<forall>x \<in> set pre. uid (heap q x) \<noteq> taskId"
  have "findIndex (\<lambda>r. uid (heap q r) = taskId) (pre @ r # post) = int (length pre)"
    using miss hit by (intro findIndex_first) simp_all
  then show "remove taskId silent q = (True, q\<lparr> taskStack := pre @ post \<rparr>)"
    using st by (simp add: remove_def splice1_middle)
qed

lemma sample_queue_fields:
  "taskStack (sample_queue ty load) = [0, 1, 2]"
  "heap (sample_queue ty load) = two_tasks ty"
  "workers (sample_queue ty load) = one_worker load 1"
  "taskExecutors (sample_queue ty load) = [(''noop'', noop_executor), (''strict'', strict_executor)]"
  "outbox (sample_queue ty load) = []"
  "saveTaskCalls (sample_queue ty load) = []"
  by (simp_all add: sample_queue_def)

lemma two_tasks_fields:
  "uid (two_tasks ty 0) = ''a''" "uid (two_tasks ty (Suc n)) = ''b''"
  "type (two_tasks ty r) = ty" "retryCount (two_tasks ty r) = 0"
  "maxRetries (two_tasks ty r) = 3"
  by (simp_all add: two_tasks_def task_of_fields)

text \<open>
  The theorem on the stack of tasks \<open>a\<close>, \<open>b\<close>, \<open>b\<close>: removing \<open>zz\<close> changes nothing,
  removing \<open>b\<close> takes the first \<open>b\<close> out.
\<close>

theorem remove_first_match_witness:
  "taskStack (sample_queue ''noop'' 0) = [0, 1, 2] \<and>
   uid (heap (sample_queue ''noop'' 0) 0) = ''a'' \<and>
   uid (heap (sample_queue ''noop'' 0) 1) = ''b'' \<and>
   uid (heap (sample_queue ''noop'' 0) 2) = ''b'' \<and>
   remove ''zz'' False (sample_queue ''noop'' 0) = (False, sample_queue ''noop'' 0) \<and>
   remove ''b'' True (sample_queue ''noop'' 0) = (True, (sample_queue ''noop'' 0)\<lparr> taskStack := [0] @ [2] \<rparr>)"
proof -
  have one: "(1::nat) = Suc 0" and two: "(2::nat) = Suc (Suc 0)" by simp_all
  have a: "\<forall>r \<in> set (taskStack (sample_queue ''noop'' 0)). uid (heap (sample_queue ''noop'' 0) r) \<noteq> ''zz''"
    by (simp add: sample_queue_fields two_tasks_fields one two)
  have b: "taskStack (sample_queue ''noop'' 0) = [0] @ 1 # [2]"
    by (simp add: sample_queue_fields)
  have c: "uid (heap (sample_queue ''noop'' 0) 1) = ''b''"
    by (simp add: sample_queue_fields two_tasks_fields one)
  have d: "\<forall>x \<in> set [0]. uid (heap (sample_queue ''noop'' 0) x) \<noteq> ''b''"
    by (simp add: sample_queue_fields two_tasks_fields)
  note rule1 = remove_first_match [where q = "sample_queue ''noop'' 0" and taskId = "''zz''" and silent = False]
  note rule2 = remove_first_match [where q = "sample_queue ''noop'' 0" and taskId = "''b''" and silent = True
                 and pre = "[0]" and r = 1 and post = "[2]"]
  have e: "remove ''zz'' False (sample_queue ''noop'' 0) = (False, sample_queue ''noop'' 0)"
    using rule1 a by blast
  have f: "remove ''b'' True (sample_queue ''noop'' 0) = (True, (sample_queue ''noop'' 0)\<lparr> taskStack := [0] @ [2] \<rparr>)"
    using rule2 b c d by blast
  have st: "taskStack (sample_queue ''noop'' 0) = [0, 1, 2]"
    by (simp add: sample_queue_fields)
  have u0: "uid (heap (sample_queue ''noop'' 0) 0) = ''a''"
    by (simp add: sample_queue_fields two_tasks_fields)
  have u2: "uid (heap (sample_queue ''noop'' 0) 2) = ''b''"
    by (simp add: sample_queue_fields two_tasks_fields two)
  show ?thesis
    by (rule conjI [OF st conjI [OF u0 conjI [OF c conjI [OF u2 conjI [OF e f]]]]])
qed

section \<open>The adapter's upsert\<close>

lemma get_property_code: "get_property props ''code'' = map_of props ''code''"
  by (simp add: get_property_def Object_prototype_def split: option.splits)

lemma unique_conflict_iff:
  "unique_conflict err \<longleftrightarrow> (\<exists>props. err = JObj props \<and> map_of props ''code'' = Some (JStr ''P202''))"
  by (auto simp: unique_conflict_def hasProperty_def get_property_code typeof_def truthy_def
                 strict_equals_def
           split: jsval.splits option.splits)

lemma upsertArgs_eta:
  "\<lparr> ua_where = ua_where d, ua_update = ua_update d, ua_create = ua_create d \<rparr> = (d :: upsertArgs)"
  by simp

lemma safeUpsert_fulfils: "fst (safeUpsert tbl wh ins oc) = Inr ()"
  by (simp add: safeUpsert_def Let_def split: sum.splits option.splits)

text \<open>
  Claim C7, as the code has it. No error is passed on to the caller: \<open>upsert\<close> on the
  Prisma adapter and \<open>safeUpsert\<close> never reject. A row from the client's \<open>upsert\<close> is
  returned by the adapter. When the client's \<open>upsert\<close> rejects with an error that the
  code's test takes for a unique-constraint conflict, \<open>update(where, update)\<close> is
  called; if it fulfils, the adapter returns its row and \<open>safeUpsert\<close> hands it to
  \<open>onComplete\<close>; if it rejects, that error is swallowed. An error of the client's
  \<open>upsert\<close> that the test does not take for a conflict is swallowed as well. Where an
  error is swallowed the adapter's result is \<open>undefined\<close>.
\<close>

theorem upsert_falls_back_or_swallows:
  "(\<exists>v. upsert tbl d = Inr v) \<and>
   (td_upsert tbl d = Inr row \<longrightarrow> upsert tbl d = Inr row) \<and>
   (td_upsert tbl d = Inl err \<longrightarrow> unique_conflict err \<longrightarrow>
      td_update tbl \<lparr> up_where = ua_where d, up_data = ua_update d \<rparr> = Inr row \<longrightarrow>
      upsert tbl d = Inr row) \<and>
   (td_upsert tbl d = Inl err \<longrightarrow> unique_conflict err \<longrightarrow>
      td_update tbl \<lparr> up_where = ua_where d, up_data = ua_update d \<rparr> = Inl updateErr \<longrightarrow>
      upsert tbl d = Inr JUndefined) \<and>
   (td_upsert tbl d = Inl err \<longrightarrow> \<not> unique_conflict err \<longrightarrow> upsert tbl d = Inr JUndefined) \<and>
   fst (safeUpsert tbl wh ins oc) = Inr () \<and>
   (td_upsert tbl \<lparr> ua_where = wh, ua_update = ins, ua_create = ins \<rparr> = Inl err \<longrightarrow>
      unique_conflict err \<longrightarrow>
      td_update tbl \<lparr> up_where = wh, up_data = ins \<rparr> = Inr row \<longrightarrow>
      snd (safeUpsert tbl wh ins oc) = (case oc of None \<Rightarrow> [] | Some f \<Rightarrow> [row])) \<and>
   (td_upsert tbl \<lparr> ua_where = wh, ua_update = ins, ua_create = ins \<rparr> = Inl err \<longrightarrow>
      unique_conflict err \<longrightarrow>
      td_update tbl \<lparr> up_where = wh, up_data = ins \<rparr> = Inl updateErr \<longrightarrow>
      snd (safeUpsert tbl wh ins oc) = []) \<and>
   (td_upsert tbl \<lparr> ua_where = wh, ua_update = ins, ua_create = ins \<rparr> = Inl err \<longrightarrow>
      \<not> unique_conflict err \<longrightarrow> snd (safeUpsert tbl wh ins oc) = [])"
proof -
  have a1: "\<exists>v. upsert tbl d = Inr v"
    by (auto simp: upsert_def upsertArgs_eta split: sum.splits)
  have a2: "td_upsert tbl d = Inr row \<longrightarrow> upsert tbl d = Inr row"
    by (simp add: upsert_def upsertArgs_eta)
  have a3: "td_upsert tbl d = Inl err \<longrightarrow> unique_conflict err \<longrightarrow>
      td_update tbl \<lparr> up_where = ua_where d, up_data = ua_update d \<rparr> = Inr row \<longrightarrow>
      upsert tbl d = Inr row"
    by (simp add: upsert_def upsertArgs_eta)
  have a4: "td_upsert tbl d = Inl err \<longrightarrow> unique_conflict err \<longrightarrow>
      td_update tbl \<lparr> up_where = ua_where d, up_data = ua_update d \<rparr> = Inl updateErr \<longrightarrow>
      upsert tbl d = Inr JUndefined"
    by (simp add: upsert_def upsertArgs_eta)
  have a5: "td_upsert tbl d = Inl err \<longrightarrow> \<not> unique_conflict err \<longrightarrow> upsert tbl d = Inr JUndefined"
    by (simp add: upsert_def upsertArgs_eta)
  have b1: "fst (safeUpsert tbl wh ins oc) = Inr ()"
    by (rule safeUpsert_fulfils)
  have b2: "td_upsert tbl \<lparr> ua_where = wh, ua_update = ins, ua_create = ins \<rparr> = Inl err \<longrightarrow>
      unique_conflict err \<longrightarrow>
      td_update tbl \<lparr> up_where = wh, up_data = ins \<rparr> = Inr row \<longrightarrow>
      snd (safeUpsert tbl wh ins oc) = (case oc of None \<Rightarrow> [] | Some f \<Rightarrow> [row])"
    by (simp add: safeUpsert_def call_onComplete_def split: option.splits)
  have b3: "td_upsert tbl \<lparr> ua_where = wh, ua_update = ins, ua_create = ins \<rparr> = Inl err \<longrightarrow>
      unique_conflict err \<longrightarrow>
      td_update tbl \<lparr> up_where = wh, up_data = ins \<rparr> = Inl updateErr \<longrightarrow>
      snd (safeUpsert tbl wh ins oc) = []"
    by (simp add: safeUpsert_def)
  have b4: "td_upsert tbl \<lparr> ua_where = wh, ua_update = ins, ua_create = ins \<rparr> = Inl err \<longrightarrow>
      \<not> unique_conflict err \<longrightarrow> snd (safeUpsert tbl wh ins oc) = []"
    by (simp add: safeUpsert_def)
  show ?thesis
    by (rule conjI [OF a1 conjI [OF a2 conjI [OF a3 conjI [OF a4 conjI [OF a5
          conjI [OF b1 conjI [OF b2 conjI [OF b3 b4]]]]]]]])
qed

lemma conflicting_table_fields:
  "td_upsert (conflicting_table c) args = Inl (JObj [(''code'', JStr c)])"
  "td_update (conflicting_table c) args' = Inr (JObj [(''uid'', JStr ''a'')])"
  by (simp_all add: conflicting_table_def reject_with_def fulfil_with_def)

text \<open>The theorem at a table whose \<open>upsert\<close> rejects with an error the test takes for a
  conflict and whose \<open>update\<close> returns a row, and at one whose \<open>upsert\<close> rejects with
  an error of code \<open>P1001\<close>.\<close>

theorem upsert_falls_back_or_swallows_witness:
  "td_upsert (conflicting_table ''P202'') sample_args = Inl (JObj [(''code'', JStr ''P202'')]) \<and>
   unique_conflict (JObj [(''code'', JStr ''P202'')]) \<and>
   td_update (conflicting_table ''P202'')
      \<lparr> up_where = ua_where sample_args, up_data = ua_update sample_args \<rparr>
     = Inr (JObj [(''uid'', JStr ''a'')]) \<and>
   upsert (conflicting_table ''P202'') sample_args = Inr (JObj [(''uid'', JStr ''a'')]) \<and>
   snd (safeUpsert (conflicting_table ''P202'') JNull JNull (Some quiet_onComplete)) = [JObj [(''uid'', JStr ''a'')]] \<and>
   td_upsert (conflicting_table ''P1001'') sample_args = Inl (JObj [(''code'', JStr ''P1001'')]) \<and>
   \<not> unique_conflict (JObj [(''code'', JStr ''P1001'')]) \<and>
   upsert (conflicting_table ''P1001'') sample_args = Inr JUndefined \<and>
   snd (safeUpsert (conflicting_table ''P1001'') JNull JNull (Some quiet_onComplete)) = []"
proof -
  have a: "td_upsert (conflicting_table ''P202'') sample_args = Inl (JObj [(''code'', JStr ''P202'')])"
    by (rule conflicting_table_fields)
  have b: "unique_conflict (JObj [(''code'', JStr ''P202'')])"
    by (simp add: unique_conflict_iff)
  have c: "td_update (conflicting_table ''P202'')
      \<lparr> up_where = ua_where sample_args, up_data = ua_update sample_args \<rparr>
     = Inr (JObj [(''uid'', JStr ''a'')])"
    by (rule conflicting_table_fields)
  have d: "td_upsert (conflicting_table ''P1001'') sample_args = Inl (JObj [(''code'', JStr ''P1001'')])"
    by (rule conflicting_table_fields)
  have e: "\<not> unique_conflict (JObj [(''code'', JStr ''P1001'')])"
    by (simp add: unique_conflict_iff)
  note rule1 = upsert_falls_back_or_swallows
      [where tbl = "conflicting_table ''P202''" and d = sample_args and wh = JNull and ins = JNull
         and oc = "Some quiet_onComplete"
         and err = "JObj [(''code'', JStr ''P202'')]" and row = "JObj [(''uid'', JStr ''a'')]"]
  note rule2 = upsert_falls_back_or_swallows
      [where tbl = "conflicting_table ''P1001''" and d = sample_args and wh = JNull and ins = JNull
         and oc = "Some quiet_onComplete"
         and err = "JObj [(''code'', JStr ''P1001'')]"]
  have f: "upsert (conflicting_table ''P202'') sample_args = Inr (JObj [(''uid'', JStr ''a'')])"
    using rule1 a b c by blast
  have f': "snd (safeUpsert (conflicting_table ''P202'') JNull JNull (Some quiet_onComplete)) = [JObj [(''uid'', JStr ''a'')]]"
    using rule1 b by (simp add: conflicting_table_fields)
  have g: "upsert (conflicting_table ''P1001'') sample_args = Inr JUndefined"
    using rule2 d e by blast
  have g': "snd (safeUpsert (conflicting_table ''P1001'') JNull JNull (Some quiet_onComplete)) = []"
    using rule2 e by (simp add: conflicting_table_fields)
  show ?thesis
    by (rule conjI [OF a conjI [OF b conjI [OF c conjI [OF f conjI [OF f'
          conjI [OF d conjI [OF e conjI [OF g g']]]]]]]])
qed

text \<open>
  An error that is not a unique-constraint conflict (code \<open>P1001\<close>, the database cannot
  be reached) is not passed on to the caller, as claim C7 has it: the adapter's call
  fulfils with \<open>undefined\<close> and \<open>safeUpsert\<close> fulfils too.
\<close>

theorem upsert_swallows_counterexample:
  "td_upsert (conflicting_table ''P1001'') sample_args = Inl (JObj [(''code'', JStr ''P1001'')]) \<and>
   upsert (conflicting_table ''P1001'') sample_args \<noteq> Inl (JObj [(''code'', JStr ''P1001'')]) \<and>
   upsert (conflicting_table ''P1001'') sample_args = Inr JUndefined \<and>
   fst (safeUpsert (conflicting_table ''P1001'') JNull JNull None) = Inr ()"
  by (simp add: upsert_def upsertArgs_eta conflicting_table_fields unique_conflict_iff
        safeUpsert_fulfils)

section \<open>Worker selection\<close>

lemma one_worker_fields:
  "workerMap (one_worker load cap) = [(''w1'', polled_worker ''w1'' load)]"
  "maxWorkers (one_worker load cap) = cap"
  by (simp_all add: one_worker_def)

lemma polled_worker_fields:
  "cachedInfo (polled_worker i load) = Some (idle_info load)"
  "maxConcurrentTasks (polled_worker i load) = 10"
  "wid (polled_worker i load) = i"
  "taskLoad (idle_info load) = load"
  by (simp_all add: polled_worker_def new_Worker_def idle_info_def)

text \<open>
  Claim C6 at a manager whose \<open>maxWorkers\<close> is 1 and whose one worker is saturated
  (cached load 10 of 10), and at one whose one worker has not been polled yet:
  \<open>getAvailable\<close> does not return \<open>undefined\<close>, it throws the \<open>TypeError\<close> of
  \<open>reduce\<close> on an empty array.
\<close>

theorem getAvailable_saturated_throws:
  "getAvailable (one_worker 10 1) = Inl (TypeError ''Reduce of empty array with no initial value'') \<and>
   getAvailable (unpolled_worker 1) = Inl (TypeError ''Reduce of empty array with no initial value'')"
  by (simp add: getAvailable_def available_def availability_def List.map_filter_def
        one_worker_fields polled_worker_fields unpolled_worker_def new_Worker_def)

section \<open>The batch strategy\<close>

lemma getAvailableWorkers_one:
  "load < 10 \<Longrightarrow> getAvailableWorkers (one_worker load cap) = [(idle_info load, polled_worker ''w1'' load)]"
  by (simp add: getAvailableWorkers_def available_def availability_def List.map_filter_def
        one_worker_fields polled_worker_fields)

text \<open>
  Claim C5 at a queue with one idle worker and the task \<open>a\<close>, whose type \<open>ghost\<close> has no
  executor: the task is counted under \<open>noExecutorFound\<close>, and the \<open>taskBatch\<close> message
  sent to the worker still contains it (and it is counted under \<open>tasksSent\<close>).
\<close>

theorem batch_sends_unchecked_task:
  "outbox (snd (snd (batch 0 (sample_queue ''ghost'' 0) [0]))) = [(''w1'', TaskBatch [task_of ''a'' ''ghost''])] \<and>
   noExecutorFound (fst (batch 0 (sample_queue ''ghost'' 0) [0])) = 1 \<and>
   tasksSent (fst (batch 0 (sample_queue ''ghost'' 0) [0])) = 1"
  by (simp add: batch_def getAvailableWorkers_one sample_queue_fields batch_step_def
        polled_worker_fields batch_check_def getExecutor_def two_tasks_fields Let_def
        remove_def send_def stats0_def two_tasks_def task_of_fields splice1_def)

section \<open>The worker runtime's counter\<close>

text \<open>
  Claim C2 at a worker with \<open>MAX_TASK_LOAD = 3\<close> that is sent one task. From
  \<open>taskLoad = 0\<close>, with an executor that returns normally, the counter is incremented
  once, decremented by \<open>withWorkerCapacity\<close> and decremented again by \<open>processTasks\<close>:
  it ends at \<open>-1\<close>. From \<open>taskLoad = 3\<close> the capacity gate throws before the
  increment and \<open>processTasks\<close> still decrements: it ends at \<open>2\<close>.
\<close>

theorem processTasks_leaves_negative_load:
  "rt_taskLoad (processTasks no_env 0 [] [plain ''a'' ''noop''] sample_runtime) = -1 \<and>
   rt_taskLoad (processTasks no_env 0 [] [plain ''a'' ''noop''] (sample_runtime\<lparr> rt_taskLoad := 3 \<rparr>)) = 2"
  by (simp add: processTasks_def start_callback_def resume_all_def resume_callback_def
        waits_for_execute_def under_full_load_def increment_def decrement_def
        sample_runtime_def Let_def sendTaskInfo_def after_execute_def
        fromPlainObject_def task_of_def [symmetric] task_of_fields noop_executor_def
        execute_settled exec_done_def done_result_def)

section \<open>Accounting of the dispatch counters\<close>

lemma remove_frame:
  "heap (snd (remove u sl q)) = heap q"
  "taskExecutors (snd (remove u sl q)) = taskExecutors q"
  "saveTaskCalls (snd (remove u sl q)) = saveTaskCalls q"
  "outbox (snd (remove u sl q)) = outbox q"
  "workers (snd (remove u sl q)) = workers q"
  by (simp_all add: remove_def Let_def)













section \<open>Further properties of the worker runtime and the manager\<close>

text \<open>On one task \<open>processTasks\<close> is the callback run from its start to its end.\<close>

lemma processTasks_one:
  "exitCode rt = None \<Longrightarrow>
     processTasks e now rnd [d] rt = process_one (run_task e now rnd d) rt"
  by (simp add: processTasks_def start_callback_def resume_all_def resume_callback_def
        waits_for_execute_def process_one_def withWorkerCapacity_def run_task_def Let_def
        increment_def decrement_def sendTaskInfo_def error_message_def
        split: option.splits)

lemma start_callback_effect:
  "exitCode (snd (start_callback e now rnd d rt)) = exitCode rt \<and>
   rt_taskLoad (snd (start_callback e now rnd d rt))
     = rt_taskLoad rt + (if admitted (fst (start_callback e now rnd d rt)) then 1 else 0)"
  by (simp add: start_callback_def Let_def admitted_def increment_def sendTaskInfo_def
        split: option.splits)

lemma start_all_effect:
  "exitCode (snd (start_all e now rnd ds rt)) = exitCode rt \<and>
   length (fst (start_all e now rnd ds rt)) = length ds \<and>
   rt_taskLoad (snd (start_all e now rnd ds rt))
     = rt_taskLoad rt + int (length (filter admitted (fst (start_all e now rnd ds rt))))"
proof (induction ds arbitrary: rt)
  case Nil
  then show ?case by simp
next
  case (Cons d ds)
  show ?case
    using Cons.IH [of "snd (start_callback e now rnd d rt)"] start_callback_effect [of e now rnd d rt]
    by (simp add: Let_def)
qed

lemma resume_callback_load:
  "rt_taskLoad (resume_callback now cb rt) = rt_taskLoad rt - (if admitted cb then 2 else 1)"
  by (simp add: resume_callback_def admitted_def decrement_def sendTaskInfo_def
        after_execute_def Let_def split: callback.splits sum.splits prod.splits)

lemma resume_all_exited: "exitCode rt \<noteq> None \<Longrightarrow> resume_all now cbs rt = rt"
  by (induction cbs) (auto simp add: resume_all_def)

lemma resume_all_Cons:
  "resume_all now (cb # cbs) rt =
     (if exitCode rt = None then resume_all now cbs (resume_callback now cb rt) else rt)"
  by (simp add: resume_all_def resume_all_exited [unfolded resume_all_def])

lemma resume_all_load:
  "exitCode (resume_all now cbs rt) = None \<Longrightarrow>
     rt_taskLoad (resume_all now cbs rt)
       = rt_taskLoad rt - (\<Sum>cb \<leftarrow> cbs. if admitted cb then 2 else 1)"
proof (induction cbs arbitrary: rt)
  case Nil
  then show ?case by (simp add: resume_all_def)
next
  case (Cons cb cbs)
  show ?case
  proof (cases "exitCode rt = None")
    case True
    then have run: "resume_all now (cb # cbs) rt = resume_all now cbs (resume_callback now cb rt)"
      by (simp add: resume_all_Cons)
    then have "exitCode (resume_all now cbs (resume_callback now cb rt)) = None"
      using Cons.prems by simp
    from Cons.IH [OF this] show ?thesis
      unfolding run by (simp add: resume_callback_load)
  next
    case False
    then have "resume_all now (cb # cbs) rt = rt" by (rule resume_all_exited)
    then show ?thesis using Cons.prems False by simp
  qed
qed

lemma sum_list_partition:
  "(\<Sum>x \<leftarrow> filter (\<lambda>x. \<not> P x) xs @ filter P xs. (f x :: int)) = (\<Sum>x \<leftarrow> xs. f x)"
  by (induction xs) simp_all

lemma sum_list_cost:
  "(\<Sum>cb \<leftarrow> cbs. if admitted cb then 2 else (1::int)) = int (length cbs) + int (length (filter admitted cbs))"
  by (induction cbs) simp_all

text \<open>
  If no execution fails, so that the process is still running afterwards,
  \<open>processTasks\<close> has lowered \<open>taskLoad\<close> by one for every task it was given, whether
  or not the capacity gate admitted the task.
\<close>

theorem processTasks_lowers_load:
  "exitCode (processTasks e now rnd taskData rt) = None \<Longrightarrow>
     rt_taskLoad (processTasks e now rnd taskData rt) = rt_taskLoad rt - int (length taskData)"
proof -
  let ?st = "start_all e now rnd taskData rt"
  let ?order = "filter (\<lambda>cb. \<not> waits_for_execute cb) (fst ?st) @ filter waits_for_execute (fst ?st)"
  assume "exitCode (processTasks e now rnd taskData rt) = None"
  then have alive: "exitCode (resume_all now ?order (snd ?st)) = None"
    by (simp add: processTasks_def Let_def)
  have "rt_taskLoad (resume_all now ?order (snd ?st))
          = rt_taskLoad (snd ?st) - (\<Sum>cb \<leftarrow> ?order. if admitted cb then 2 else 1)"
    using alive by (rule resume_all_load)
  also have "\<dots> = rt_taskLoad (snd ?st) - (\<Sum>cb \<leftarrow> fst ?st. if admitted cb then 2 else 1)"
    by (simp only: sum_list_partition)
  also have "\<dots> = rt_taskLoad rt - int (length taskData)"
    using start_all_effect [of e now rnd taskData rt] by (simp add: sum_list_cost)
  finally show ?thesis by (simp add: processTasks_def Let_def)
qed

text \<open>The theorem at a worker that is sent one task with an executor and one without.\<close>

theorem processTasks_lowers_load_witness:
  "exitCode (processTasks no_env 0 [] [plain ''a'' ''noop'', plain ''b'' ''ghost''] sample_runtime) = None \<and>
   rt_taskLoad (processTasks no_env 0 [] [plain ''a'' ''noop'', plain ''b'' ''ghost''] sample_runtime) = - 2"
proof -
  have a: "exitCode (processTasks no_env 0 [] [plain ''a'' ''noop'', plain ''b'' ''ghost''] sample_runtime) = None"
    by (simp add: processTasks_def start_callback_def resume_all_def resume_callback_def
        waits_for_execute_def under_full_load_def increment_def decrement_def
        sample_runtime_def Let_def sendTaskInfo_def after_execute_def
        fromPlainObject_def task_of_def [symmetric] task_of_fields noop_executor_def
        execute_settled exec_done_def done_result_def)
  have b: "rt_taskLoad (processTasks no_env 0 [] [plain ''a'' ''noop'', plain ''b'' ''ghost''] sample_runtime) = - 2"
    using processTasks_lowers_load [OF a] by (simp add: sample_runtime_def)
  show ?thesis by (rule conjI [OF a b])
qed

text \<open>
  A batch of four tasks at a worker with \<open>MAX_TASK_LOAD = 3\<close> and nothing running: the
  first three callbacks raise the counter to 3 before any of them resumes, so the fourth
  task is refused. Its report is the first to be sent.
\<close>

lemma processTasks_refuses_overflow:
  "rt_taskLoad (processTasks no_env 0 [] (replicate 4 (plain ''a'' ''noop'')) sample_runtime) = - 4 \<and>
   map ti_error (replies (processTasks no_env 0 [] (replicate 4 (plain ''a'' ''noop'')) sample_runtime))
     = [''[w1] Currently under full load'', ''null'', ''null'', ''null'']"
  by (simp add: processTasks_def start_callback_def resume_all_def resume_callback_def
        waits_for_execute_def under_full_load_def increment_def decrement_def
        sample_runtime_def Let_def sendTaskInfo_def after_execute_def numeral_eq_Suc
        fromPlainObject_def task_of_def [symmetric] task_of_fields noop_executor_def
        execute_settled exec_done_def done_result_def worker_message_def error_message_def)

lemma execute_throwing:
  "status t = Pending \<Longrightarrow> executor = exec_down \<Longrightarrow>
     fst (execute now executor rs t) = Inl ''Network timeout''"
proof (induction now executor rs t rule: execute.induct)
  case (1 now executor rs t)
  let ?t1 = "begin_attempt now t"
  have r: "race (executor ?t1) ?t1 = Inl ''Network timeout''"
    using "1.prems"(2) by (simp add: race_def exec_down_def)
  show ?case
  proof (cases "shouldRetry ''Network timeout'' rs \<and> fst (retry ?t1)")
    case True
    then have p: "status (snd (retry ?t1)) = Pending"
      by (auto simp: retry_def split: if_splits)
    have "execute now executor rs t = execute now executor rs (snd (retry ?t1))"
      using "1.prems"(1) r True by (subst execute.simps) (simp add: Let_def)
    then show ?thesis
      using "1.IH" [of ?t1 "''Network timeout''"] "1.prems" r True p by simp
  next
    case False
    then show ?thesis
      using "1.prems"(1) r by (subst execute.simps) (auto simp: Let_def)
  qed
qed

lemma after_execute_failed:
  "fst settled = Inl err \<Longrightarrow> exitCode (after_execute settled rt) = Some 1 \<and>
     length (replies (after_execute settled rt)) = length (replies rt) + 2"
  by (cases settled) (simp add: after_execute_def Let_def sendTaskInfo_def)

text \<open>
  Two tasks at a worker whose executor fails on every attempt: the first failure is
  reported twice and the process exits with code 1; the second task is never reported.
\<close>

lemma processTasks_exits_on_failure:
  "exitCode (processTasks no_env 0 [] [plain ''a'' ''noop'', plain ''b'' ''noop''] down_runtime) = Some 1 \<and>
   length (replies (processTasks no_env 0 [] [plain ''a'' ''noop'', plain ''b'' ''noop''] down_runtime)) = 2"
proof -
  have f: "fst (execute 0 exec_down [] (task_of ''a'' ''noop'')) = Inl ''Network timeout''"
    by (rule execute_throwing [OF _ refl]) (simp add: task_of_fields)
  show ?thesis
    using after_execute_failed [OF f]
    by (simp add: processTasks_def start_callback_def resume_all_def resume_callback_def
        waits_for_execute_def under_full_load_def increment_def decrement_def
        sample_runtime_def down_runtime_def Let_def
        fromPlainObject_def task_of_def [symmetric] task_of_fields noop_executor_def)
qed

text \<open>
  \<open>withWorkerCapacity\<close> on its own is balanced: under full load it throws and changes
  nothing; otherwise it runs \<open>fn\<close> with the counter one higher and, whether \<open>fn\<close>
  fulfils or rejects, hands back what \<open>fn\<close> settled with and the counter one lower than
  \<open>fn\<close> left it.
\<close>

theorem withWorkerCapacity_balanced:
  "(under_full_load rt \<longrightarrow>
      withWorkerCapacity fn rt = (Inl (Error (worker_message rt ''Currently under full load'')), rt)) \<and>
   (\<not> under_full_load rt \<longrightarrow>
      fst (withWorkerCapacity fn rt) = fst (fn (rt\<lparr> rt_taskLoad := rt_taskLoad rt + 1 \<rparr>)) \<and>
      rt_taskLoad (snd (withWorkerCapacity fn rt))
        = rt_taskLoad (snd (fn (rt\<lparr> rt_taskLoad := rt_taskLoad rt + 1 \<rparr>))) - 1)"
  by (simp add: withWorkerCapacity_def Let_def increment_def decrement_def)

lemma run_task_load:
  "rt_taskLoad (snd (run_task e now rnd d rt)) = rt_taskLoad rt"
  by (simp add: run_task_def Let_def sendTaskInfo_def after_execute_def
        split: option.splits sum.splits prod.splits)

text \<open>The theorem at a worker with room, running one task, and at a worker under full load.\<close>

theorem withWorkerCapacity_balanced_witness:
  "\<not> under_full_load sample_runtime \<and>
   rt_taskLoad (snd (withWorkerCapacity (run_task no_env 0 [] (plain ''a'' ''noop'')) sample_runtime)) = 0 \<and>
   under_full_load (sample_runtime\<lparr> rt_taskLoad := 3 \<rparr>) \<and>
   fst (withWorkerCapacity (run_task no_env 0 [] (plain ''a'' ''noop'')) (sample_runtime\<lparr> rt_taskLoad := 3 \<rparr>))
     = Inl (Error ''[w1] Currently under full load'')"
proof -
  have a: "\<not> under_full_load sample_runtime"
    by (simp add: under_full_load_def sample_runtime_def)
  have b: "under_full_load (sample_runtime\<lparr> rt_taskLoad := 3 \<rparr>)"
    by (simp add: under_full_load_def sample_runtime_def)
  note rule1 = withWorkerCapacity_balanced
      [where rt = sample_runtime and fn = "run_task no_env 0 [] (plain ''a'' ''noop'')"]
  note rule2 = withWorkerCapacity_balanced
      [where rt = "sample_runtime\<lparr> rt_taskLoad := 3 \<rparr>" and fn = "run_task no_env 0 [] (plain ''a'' ''noop'')"]
  have c: "rt_taskLoad (snd (withWorkerCapacity (run_task no_env 0 [] (plain ''a'' ''noop'')) sample_runtime)) = 0"
    using rule1 a by (simp add: run_task_load sample_runtime_def)
  have d: "fst (withWorkerCapacity (run_task no_env 0 [] (plain ''a'' ''noop'')) (sample_runtime\<lparr> rt_taskLoad := 3 \<rparr>))
     = Inl (Error ''[w1] Currently under full load'')"
    using rule2 b by (simp add: worker_message_def sample_runtime_def)
  show ?thesis
    by (rule conjI [OF a conjI [OF c conjI [OF b d]]])
qed

lemma available_iff:
  "(i, w) \<in> set (available m) \<longleftrightarrow>
     w \<in> snd ` set (workerMap m) \<and> cachedInfo w = Some i \<and> taskLoad i < maxConcurrentTasks w"
  by (auto simp: available_def availability_def List.map_filter_def image_iff
           split: option.splits if_splits)

lemma foldl_less_busy:
  "foldl less_busy x xs \<in> set (x # xs) \<and>
   (\<forall>y \<in> set (x # xs). taskLoad (fst (foldl less_busy x xs)) \<le> taskLoad (fst y))"
proof (induction xs arbitrary: x)
  case Nil
  then show ?case by simp
next
  case (Cons z zs)
  have ih: "foldl less_busy (less_busy x z) zs \<in> set (less_busy x z # zs) \<and>
     (\<forall>y \<in> set (less_busy x z # zs).
        taskLoad (fst (foldl less_busy (less_busy x z) zs)) \<le> taskLoad (fst y))"
    by (rule Cons.IH)
  have lb: "less_busy x z \<in> {x, z}" "taskLoad (fst (less_busy x z)) \<le> taskLoad (fst x)"
    "taskLoad (fst (less_busy x z)) \<le> taskLoad (fst z)"
    by (auto simp: less_busy_def)
  have mem: "foldl less_busy (less_busy x z) zs \<in> set (x # z # zs)"
    using ih lb(1) by auto
  have low: "taskLoad (fst (foldl less_busy (less_busy x z) zs)) \<le> taskLoad (fst (less_busy x z))"
    using ih by simp
  show ?case
    using mem low lb(2,3) ih by (auto intro: order_trans)
qed

text \<open>
  When the manager has workers and some are available (polled, with cached load below
  \<open>maxConcurrentTasks\<close>), \<open>getAvailable\<close> returns one of them whose cached load is
  least, and leaves the manager as it is. When it has workers, none is available and
  there is room for another, it spawns one.
\<close>

theorem getAvailable_least_loaded:
  "(workerMap m \<noteq> [] \<longrightarrow> available m \<noteq> [] \<longrightarrow>
      (\<exists>i w. getAvailable m = Inr (Some w, m) \<and> (i, w) \<in> set (available m) \<and>
             (\<forall>p \<in> set (available m). taskLoad i \<le> taskLoad (fst p)))) \<and>
   (workerMap m \<noteq> [] \<longrightarrow> available m = [] \<longrightarrow> int (length (workerMap m)) < maxWorkers m \<longrightarrow>
      moduleExists m \<longrightarrow>
      getAvailable m =
        Inr (Some (new_Worker (worker_generateId m)),
             m\<lparr> workerMap := map_set (worker_generateId m) (new_Worker (worker_generateId m)) (workerMap m) \<rparr>))"
proof (rule conjI)
  show "workerMap m \<noteq> [] \<longrightarrow> available m \<noteq> [] \<longrightarrow>
      (\<exists>i w. getAvailable m = Inr (Some w, m) \<and> (i, w) \<in> set (available m) \<and>
             (\<forall>p \<in> set (available m). taskLoad i \<le> taskLoad (fst p)))"
  proof (intro impI)
    assume ne: "workerMap m \<noteq> []" and av: "available m \<noteq> []"
    obtain x xs where xs: "available m = x # xs" using av by (cases "available m") auto
    let ?b = "foldl less_busy x xs"
    have eq: "getAvailable m = Inr (Some (snd ?b), m)"
      using ne xs by (simp add: getAvailable_def Let_def)
    have "(fst ?b, snd ?b) \<in> set (available m)"
      using foldl_less_busy [of x xs] xs by simp
    moreover have "\<forall>p \<in> set (available m). taskLoad (fst ?b) \<le> taskLoad (fst p)"
      using foldl_less_busy [of x xs] xs by simp
    ultimately show "\<exists>i w. getAvailable m = Inr (Some w, m) \<and> (i, w) \<in> set (available m) \<and>
             (\<forall>p \<in> set (available m). taskLoad i \<le> taskLoad (fst p))"
      using eq by blast
  qed
next
  show "workerMap m \<noteq> [] \<longrightarrow> available m = [] \<longrightarrow> int (length (workerMap m)) < maxWorkers m \<longrightarrow>
      moduleExists m \<longrightarrow>
      getAvailable m =
        Inr (Some (new_Worker (worker_generateId m)),
             m\<lparr> workerMap := map_set (worker_generateId m) (new_Worker (worker_generateId m)) (workerMap m) \<rparr>)"
    by (simp add: getAvailable_def spawn_def Let_def)
qed

text \<open>The theorem at a manager with one idle worker, and at one whose worker has not
  been polled and that may hold two workers.\<close>

theorem getAvailable_least_loaded_witness:
  "workerMap (one_worker 0 1) \<noteq> [] \<and> available (one_worker 0 1) \<noteq> [] \<and>
   getAvailable (one_worker 0 1) = Inr (Some (polled_worker ''w1'' 0), one_worker 0 1) \<and>
   workerMap (unpolled_worker 2) \<noteq> [] \<and> available (unpolled_worker 2) = [] \<and>
   int (length (workerMap (unpolled_worker 2))) < maxWorkers (unpolled_worker 2) \<and>
   moduleExists (unpolled_worker 2) \<and>
   wid (the (fst (projr (getAvailable (unpolled_worker 2))))) = ''Anqueue-worker-2''"
proof -
  have a: "workerMap (one_worker 0 1) \<noteq> []" by (simp add: one_worker_fields)
  have b: "available (one_worker 0 1) = [(idle_info 0, polled_worker ''w1'' 0)]"
    by (simp add: available_def availability_def List.map_filter_def one_worker_fields
          polled_worker_fields)
  have b': "available (one_worker 0 1) \<noteq> []" using b by simp
  have c: "workerMap (unpolled_worker 2) \<noteq> []" by (simp add: unpolled_worker_def)
  have d: "available (unpolled_worker 2) = []"
    by (simp add: available_def availability_def List.map_filter_def unpolled_worker_def
          new_Worker_def)
  have e: "int (length (workerMap (unpolled_worker 2))) < maxWorkers (unpolled_worker 2)"
    by (simp add: unpolled_worker_def one_worker_def)
  have f: "moduleExists (unpolled_worker 2)"
    by (simp add: unpolled_worker_def one_worker_def)
  note rule1 = getAvailable_least_loaded [where m = "one_worker 0 1"]
  note rule2 = getAvailable_least_loaded [where m = "unpolled_worker 2"]
  have g: "getAvailable (one_worker 0 1) = Inr (Some (polled_worker ''w1'' 0), one_worker 0 1)"
    using rule1 a b' b by auto
  have two: "decimal (Suc (Suc 0)) = ''2''"
    by (subst decimal.simps) (simp add: digit_def)
  have h: "wid (the (fst (projr (getAvailable (unpolled_worker 2))))) = ''Anqueue-worker-2''"
    using rule2 c d e f two
    by (simp add: worker_generateId_def unpolled_worker_def one_worker_def new_Worker_def)
  show ?thesis
    by (rule conjI [OF a conjI [OF b' conjI [OF g conjI [OF c conjI [OF d conjI [OF e conjI [OF f h]]]]]]])
qed

section \<open>Further properties of the batch strategy\<close>

text \<open>
  \<open>getAvailableWorkers\<close> returns exactly the available workers, in ascending order of
  \<open>taskLoad / maxConcurrentTasks\<close>.
\<close>

theorem getAvailableWorkers_ascending:
  "sorted (map load_ratio (getAvailableWorkers m)) \<and>
   set (getAvailableWorkers m) = set (available m) \<and>
   length (getAvailableWorkers m) = length (available m)"
  by (simp add: getAvailableWorkers_def)

lemma validation_not_passed_outbox:
  "outbox (snd (validation_not_passed now r why sq)) = outbox (snd sq)"
  by (simp add: validation_not_passed_def Let_def saveTask_def update_task_def remove_frame)

lemma batch_check_outbox:
  "outbox (snd (batch_check now sq r)) = outbox (snd sq)"
  by (simp add: batch_check_def Let_def remove_frame validation_not_passed_outbox
        split: option.splits)

lemma fold_batch_check_outbox:
  "outbox (snd (foldl (batch_check now) sq b)) = outbox (snd sq)"
  by (induction b arbitrary: sq) (simp_all add: batch_check_outbox)

lemma fold_remove_outbox:
  "outbox (foldl (\<lambda>q r. snd (remove (uid (heap q r)) sl q)) q b) = outbox q"
  by (induction b arbitrary: q) (simp_all add: remove_frame)

text \<open>
  For a worker with capacity \<open>c > 0\<close> and a list that is not empty, the step of \<open>batch\<close>
  takes the first \<open>min(remaining, c)\<close> tasks off the list and sends that worker one
  \<open>taskBatch\<close> message holding all of them, as they are after the checks have run,
  whatever the checks found.
\<close>

theorem batch_step_sends_head:
  "0 < maxConcurrentTasks w - taskLoad i \<Longrightarrow> ts \<noteq> [] \<Longrightarrow>
     fst (snd (batch_step now (s, ts, q) (i, w))) = drop (nat (maxConcurrentTasks w - taskLoad i)) ts \<and>
     outbox (snd (snd (batch_step now (s, ts, q) (i, w)))) =
       outbox q @
         [(wid w,
           TaskBatch (map (heap (snd (foldl (batch_check now) (s, q)
                                         (take (nat (maxConcurrentTasks w - taskLoad i)) ts))))
                          (take (nat (maxConcurrentTasks w - taskLoad i)) ts)))] \<and>
     length (take (nat (maxConcurrentTasks w - taskLoad i)) ts)
       = min (length ts) (nat (maxConcurrentTasks w - taskLoad i))"
proof -
  assume cap: "0 < maxConcurrentTasks w - taskLoad i" and ne: "ts \<noteq> []"
  let ?c = "nat (maxConcurrentTasks w - taskLoad i)"
  have bne: "take ?c ts \<noteq> []" using cap ne by (cases ts) (auto simp: take_Cons')
  have step: "batch_step now (s, ts, q) (i, w) =
      ((fst (foldl (batch_check now) (s, q) (take ?c ts)))
         \<lparr> tasksSent := tasksSent (fst (foldl (batch_check now) (s, q) (take ?c ts)))
                          + int (length (take ?c ts)) \<rparr>,
       drop ?c ts,
       foldl (\<lambda>q r. snd (remove (uid (heap q r)) True q))
         (send w (TaskBatch (map (heap (snd (foldl (batch_check now) (s, q) (take ?c ts)))) (take ?c ts)))
            (snd (foldl (batch_check now) (s, q) (take ?c ts))))
         (take ?c ts))"
    using cap ne bne by (simp add: batch_step_def Let_def)
  show ?thesis
    unfolding step
    by (simp add: fold_remove_outbox send_def fold_batch_check_outbox min.commute)
qed

text \<open>The theorem at a worker with room for one task and a list of two.\<close>

theorem batch_step_sends_head_witness:
  "0 < maxConcurrentTasks (polled_worker ''w1'' 9) - taskLoad (idle_info 9) \<and> [0::ref, 1] \<noteq> [] \<and>
   fst (snd (batch_step 0 (stats0, [0, 1], sample_queue ''noop'' 9) (idle_info 9, polled_worker ''w1'' 9))) = [1] \<and>
   outbox (snd (snd (batch_step 0 (stats0, [0, 1], sample_queue ''noop'' 9) (idle_info 9, polled_worker ''w1'' 9))))
     = [(''w1'', TaskBatch [task_of ''a'' ''noop''])]"
proof -
  have a: "0 < maxConcurrentTasks (polled_worker ''w1'' 9) - taskLoad (idle_info 9)"
    by (simp add: polled_worker_fields)
  have b: "[0::ref, 1] \<noteq> []" by simp
  have cap: "nat (maxConcurrentTasks (polled_worker ''w1'' 9) - taskLoad (idle_info 9)) = Suc 0"
    by (simp add: polled_worker_fields)
  have chk: "batch_check 0 (stats0, sample_queue ''noop'' 9) 0 = (stats0, sample_queue ''noop'' 9)"
    by (simp add: batch_check_def getExecutor_def sample_queue_fields two_tasks_fields
          noop_executor_def validate_def Let_def)
  note rule = batch_step_sends_head
      [where w = "polled_worker ''w1'' 9" and i = "idle_info 9" and ts = "[0, 1]" and now = 0
         and s = stats0 and q = "sample_queue ''noop'' 9"]
  have c: "fst (snd (batch_step 0 (stats0, [0, 1], sample_queue ''noop'' 9) (idle_info 9, polled_worker ''w1'' 9))) = [1]"
    using rule [OF a b] by (simp add: cap)
  have d: "outbox (snd (snd (batch_step 0 (stats0, [0, 1], sample_queue ''noop'' 9) (idle_info 9, polled_worker ''w1'' 9))))
     = [(''w1'', TaskBatch [task_of ''a'' ''noop''])]"
    using rule [OF a b]
    by (simp add: cap chk sample_queue_fields polled_worker_fields two_tasks_def)
  show ?thesis
    by (rule conjI [OF a conjI [OF b conjI [OF c d]]])
qed

lemma validation_not_passed_sent:
  "tasksSent (fst (validation_not_passed now r why sq)) = tasksSent (fst sq)"
  by (simp add: validation_not_passed_def Let_def split: prod.splits)

lemma batch_check_sent:
  "tasksSent (fst (batch_check now sq r)) = tasksSent (fst sq)"
  by (simp add: batch_check_def Let_def validation_not_passed_sent split: option.splits)

lemma fold_batch_check_sent:
  "tasksSent (fst (foldl (batch_check now) sq rs)) = tasksSent (fst sq)"
  by (induction rs arbitrary: sq) (simp_all add: batch_check_sent)

lemma batch_step_taken:
  "tasksSent (fst (batch_step now stq iw)) + int (length (fst (snd (batch_step now stq iw))))
     = tasksSent (fst stq) + int (length (fst (snd stq)))"
  by (auto simp add: batch_step_def Let_def fold_batch_check_sent min_def)

lemma batch_fold_taken:
  "tasksSent (fst (foldl (batch_step now) stq ws)) + int (length (fst (snd (foldl (batch_step now) stq ws))))
     = tasksSent (fst stq) + int (length (fst (snd stq)))"
  by (induction ws arbitrary: stq) (simp_all add: batch_step_taken)

text \<open>
  \<open>batch\<close> counts under \<open>tasksSent\<close> every task it took off the list it was given, whatever
  the checks found for the task: \<open>tasksSent\<close> plus the number of tasks left in the list
  is the number of input tasks.
\<close>

theorem batch_counts_taken:
  "tasksSent (fst (batch now q tasks)) + int (length (fst (snd (batch now q tasks))))
     = int (length tasks)"
  using batch_fold_taken [of now "(stats0, tasks, q)" "getAvailableWorkers (workers q)"]
  by (simp add: batch_def stats0_def)

end
